theory Spec2Isabelle
  imports Complex_Main "HOL-Library.AList"
begin

section \<open>Python values and the operations main.py applies to them\<close>

text \<open>
  Every payload that main.py handles is the result of \<^verbatim>\<open>r.json()\<close> or a dictionary
  it builds itself, so one datatype of JSON values covers inputs and outputs. A Python
  dict is an association list in insertion order whose keys are distinct; \<open>map_of\<close>
  reads it. A str is the list of its characters, so \<^verbatim>\<open>s[:200]\<close> is \<open>take 200 s\<close>;
  the type \<open>char\<close> holds the characters with a code below 256. What
  \<^verbatim>\<open>str.upper\<close> returns depends on Python's Unicode tables, which are no part of
  main.py: it is a parameter of the model (\<open>str_upper\<close> below), known on ASCII text only.
\<close>

datatype json =
    JNull
  | JBool bool
  | JInt int
  | JFloat rat
  | JStr string
  | JList "json list"
  | JObj "(string \<times> json) list"

text \<open>
  The exceptions other than HTTPException that the code can meet, each with the text
  that \<^verbatim>\<open>str(e)\<close> gives. RequestException stands for whatever
  \<^verbatim>\<open>requests.get\<close> raises (timeout, DNS, connection reset) and JSONDecodeError
  for what \<^verbatim>\<open>r.json()\<close> raises on a body that is not JSON.
\<close>

datatype py_error =
    AttributeError string
  | TypeError string
  | KeyError string
  | IndexError string
  | RequestException string
  | JSONDecodeError string

fun exc_str :: "py_error \<Rightarrow> string" where
  "exc_str (AttributeError s) = s"
| "exc_str (TypeError s) = s"
| "exc_str (KeyError s) = s"
| "exc_str (IndexError s) = s"
| "exc_str (RequestException s) = s"
| "exc_str (JSONDecodeError s) = s"

datatype py_exception =
    HTTPException (status_code: int) (detail: string)
  | Exception py_error

definition and_then :: "'e + 'a \<Rightarrow> ('a \<Rightarrow> 'e + 'b) \<Rightarrow> 'e + 'b" where
  "and_then r f = (case r of Inl e \<Rightarrow> Inl e | Inr x \<Rightarrow> f x)"

definition lift :: "py_error + 'a \<Rightarrow> py_exception + 'a" where
  "lift r = (case r of Inl e \<Rightarrow> Inl (Exception e) | Inr x \<Rightarrow> Inr x)"

fun type_name :: "json \<Rightarrow> string" where
  "type_name JNull = ''NoneType''"
| "type_name (JBool _) = ''bool''"
| "type_name (JInt _) = ''int''"
| "type_name (JFloat _) = ''float''"
| "type_name (JStr _) = ''str''"
| "type_name (JList _) = ''list''"
| "type_name (JObj _) = ''dict''"

definition squote :: string where
  "squote = [CHR 0x27]"

definition no_attribute :: "json \<Rightarrow> string \<Rightarrow> py_error" where
  "no_attribute v a =
     AttributeError (squote @ type_name v @ squote @ '' object has no attribute '' @ squote @ a @ squote)"

text \<open>Python truthiness, as \<^verbatim>\<open>if x\<close>, \<^verbatim>\<open>not x\<close> and \<^verbatim>\<open>x or y\<close> test it.\<close>

fun truthy :: "json \<Rightarrow> bool" where
  "truthy JNull = False"
| "truthy (JBool b) = b"
| "truthy (JInt i) = (i \<noteq> 0)"
| "truthy (JFloat r) = (r \<noteq> 0)"
| "truthy (JStr s) = (s \<noteq> [])"
| "truthy (JList xs) = (xs \<noteq> [])"
| "truthy (JObj kvs) = (kvs \<noteq> [])"

definition py_or :: "json \<Rightarrow> json \<Rightarrow> json" where
  "py_or x y = (if truthy x then x else y)"

text \<open>\<^verbatim>\<open>v.get(k, d)\<close>: the value under the key, else the default; only a dict has the method.\<close>

definition lookup :: "(string \<times> json) list \<Rightarrow> string \<Rightarrow> json \<Rightarrow> json" where
  "lookup kvs k d = (case map_of kvs k of None \<Rightarrow> d | Some v \<Rightarrow> v)"

fun dict_get :: "json \<Rightarrow> string \<Rightarrow> json \<Rightarrow> py_error + json" where
  "dict_get (JObj kvs) k d = Inr (lookup kvs k d)"
| "dict_get v k d = Inl (no_attribute v ''get'')"

text \<open>
  \<^verbatim>\<open>v.upper()\<close>: only a str has the method; \<open>up\<close> is what
  \<^verbatim>\<open>str.upper\<close> returns.
\<close>

fun py_upper :: "(string \<Rightarrow> string) \<Rightarrow> json \<Rightarrow> py_error + json" where
  "py_upper up (JStr s) = Inr (JStr (up s))"
| "py_upper up v = Inl (no_attribute v ''upper'')"

text \<open>
  On a str of ASCII characters \<^verbatim>\<open>str.upper\<close> maps the letters a to z to A to Z and
  keeps every other character. Nothing is said here about other text, where it may
  even change the length.
\<close>

definition ascii :: "string \<Rightarrow> bool" where
  "ascii s = (\<forall>c\<in>set s. (of_char c :: nat) < 128)"

definition ascii_upper_char :: "char \<Rightarrow> char" where
  "ascii_upper_char c =
     (if (97::nat) \<le> of_char c \<and> of_char c \<le> (122::nat)
      then char_of (of_char c - (32::nat)) else c)"

definition ascii_upper :: "string \<Rightarrow> string" where
  "ascii_upper s = map ascii_upper_char s"

text \<open>
  What \<^verbatim>\<open>for m in v\<close> visits: the elements of a list, the keys of a dict, the
  characters of a str; anything else is not iterable.
\<close>

fun py_iter :: "json \<Rightarrow> py_error + json list" where
  "py_iter (JList xs) = Inr xs"
| "py_iter (JObj kvs) = Inr (map (\<lambda>kv. JStr (fst kv)) kvs)"
| "py_iter (JStr s) = Inr (map (\<lambda>c. JStr [c]) s)"
| "py_iter v = Inl (TypeError (squote @ type_name v @ squote @ '' object is not iterable''))"

text \<open>\<^verbatim>\<open>v[0]\<close>.\<close>

fun py_index0 :: "json \<Rightarrow> py_error + json" where
  "py_index0 (JList []) = Inl (IndexError ''list index out of range'')"
| "py_index0 (JList (x # xs)) = Inr x"
| "py_index0 (JStr []) = Inl (IndexError ''string index out of range'')"
| "py_index0 (JStr (c # cs)) = Inr (JStr [c])"
| "py_index0 (JObj kvs) = Inl (KeyError ''0'')"
| "py_index0 v = Inl (TypeError (squote @ type_name v @ squote @ '' object is not subscriptable''))"

text \<open>A comprehension or loop body applied to each element in turn; the first raise ends it.\<close>

fun for_each :: "('a \<Rightarrow> 'e + 'b) \<Rightarrow> 'a list \<Rightarrow> 'e + 'b list" where
  "for_each f [] = Inr []"
| "for_each f (x # xs) =
     (case f x of
        Inl e \<Rightarrow> Inl e
      | Inr y \<Rightarrow> (case for_each f xs of Inl e \<Rightarrow> Inl e | Inr ys \<Rightarrow> Inr (y # ys)))"

text \<open>
  \<^verbatim>\<open>repr\<close> of a str, which is \<^verbatim>\<open>str(e)\<close> of the KeyError a failed dict
  subscript raises: single quotes unless the text holds a single quote and no double
  quote, with backslash, the quote and control characters escaped.
\<close>

definition hex_digit :: "nat \<Rightarrow> char" where
  "hex_digit n = (if n < 16 then ''0123456789abcdef'' ! n else CHR ''?'')"

definition repr_char :: "char \<Rightarrow> char \<Rightarrow> string" where
  "repr_char q c =
     (if c = CHR 0x5C then [CHR 0x5C, CHR 0x5C]
      else if c = q then [CHR 0x5C, q]
      else if c = CHR 0x0A then [CHR 0x5C, CHR ''n'']
      else if c = CHR 0x0D then [CHR 0x5C, CHR ''r'']
      else if c = CHR 0x09 then [CHR 0x5C, CHR ''t'']
      else if (of_char c :: nat) < 32 \<or> (of_char c :: nat) = 127
        then [CHR 0x5C, CHR ''x'', hex_digit (of_char c div 16), hex_digit (of_char c mod 16)]
      else [c])"

definition py_repr :: "string \<Rightarrow> string" where
  "py_repr s =
     (let q = (if CHR 0x27 \<in> set s \<and> CHR 0x22 \<notin> set s then CHR 0x22 else CHR 0x27)
      in q # concat (map (repr_char q) s) @ [q])"

text \<open>\<^verbatim>\<open>d[k]\<close> on a dict literal with string keys.\<close>

definition subscript :: "(string \<times> 'a) list \<Rightarrow> string \<Rightarrow> py_error + 'a" where
  "subscript d k = (case map_of d k of None \<Rightarrow> Inl (KeyError (py_repr k)) | Some v \<Rightarrow> Inr v)"

text \<open>\<^verbatim>\<open>s.rstrip('/')\<close> and \<^verbatim>\<open>s.lstrip('/')\<close>.\<close>

definition lstrip_slash :: "string \<Rightarrow> string" where
  "lstrip_slash s = dropWhile (\<lambda>c. c = CHR ''/'') s"

definition rstrip_slash :: "string \<Rightarrow> string" where
  "rstrip_slash s = rev (dropWhile (\<lambda>c. c = CHR ''/'') (rev s))"

section \<open>Configuration and the outside world\<close>

text \<open>
  The module-level settings read from the environment. \<^verbatim>\<open>os.getenv\<close> without a
  default gives None for an unset variable, hence the options. X_BEARER_TOKEN is read
  inside get_tweets; it is kept here with the others.
\<close>

record config =
  API_PROVIDER :: string
  CRICKET_API_KEY :: "string option"
  SPORTMONKS_BASE :: string
  RAPIDAPI_HOST :: "string option"
  RAPIDAPI_KEY :: "string option"
  X_BEARER_TOKEN :: "string option"

text \<open>\<^verbatim>\<open>not v\<close> for an optional string: None and the empty string are both falsy.\<close>

definition unset :: "string option \<Rightarrow> bool" where
  "unset v = (case v of None \<Rightarrow> True | Some s \<Rightarrow> s = [])"

record request =
  url :: string
  headers :: "(string \<times> string) list"
  params :: "(string \<times> json) list"
  timeout :: nat

text \<open>
  A response as the code reads it: \<^verbatim>\<open>r.status_code\<close>, \<^verbatim>\<open>r.text\<close> and
  \<^verbatim>\<open>r.json()\<close>, the last either the decoded body or the message of the decoding
  error.
\<close>

record response =
  resp_status :: int
  resp_text :: string
  resp_json :: "string + json"

text \<open>
  A parsed feed as get_news reads it: \<^verbatim>\<open>feed.entries\<close> and the dict
  \<^verbatim>\<open>feed.feed\<close>.
\<close>

record parsed_feed =
  entries :: "json list"
  feed :: json

text \<open>
  What lies outside main.py. The network: what \<^verbatim>\<open>requests.get\<close> answers to a
  request (\<open>Inl\<close> the message of the exception it raises instead) and what
  \<^verbatim>\<open>feedparser.parse\<close> makes of a URL. Python's own \<^verbatim>\<open>str.upper\<close>.
  Every function that can call \<^verbatim>\<open>requests.get\<close> returns, next to its result, the
  list of requests it issued, in order.
\<close>

record world =
  http_get :: "request \<Rightarrow> string + response"
  feed_parse :: "string \<Rightarrow> string + parsed_feed"
  str_upper :: "string \<Rightarrow> string"

definition requests_get :: "world \<Rightarrow> request \<Rightarrow> py_error + response" where
  "requests_get w req =
     (case http_get w req of
        Inl msg \<Rightarrow> Inl (RequestException msg)
      | Inr r \<Rightarrow> Inr r)"

definition r_json :: "response \<Rightarrow> py_error + json" where
  "r_json r =
     (case resp_json r of
        Inl msg \<Rightarrow> Inl (JSONDecodeError msg)
      | Inr j \<Rightarrow> Inr j)"

section \<open>Provider clients\<close>

definition sportmonks_request :: "config \<Rightarrow> string \<Rightarrow> string \<Rightarrow> (string \<times> json) list option \<Rightarrow> request" where
  "sportmonks_request cfg key path ps =
     \<lparr>url = rstrip_slash (SPORTMONKS_BASE cfg) @ ''/'' @ lstrip_slash path,
      headers = [],
      params = AList.update ''api_token'' (JStr key) (case ps of None \<Rightarrow> [] | Some p \<Rightarrow> p),
      timeout = 15\<rparr>"

definition sportmonks_get ::
  "config \<Rightarrow> world \<Rightarrow> string \<Rightarrow> (string \<times> json) list option \<Rightarrow> (py_exception + json) \<times> request list" where
  "sportmonks_get cfg w path ps =
     (case CRICKET_API_KEY cfg of
        None \<Rightarrow> (Inl (HTTPException 501 ''CRICKET_API_KEY not set for SportMonks''), [])
      | Some key \<Rightarrow>
          if key = [] then (Inl (HTTPException 501 ''CRICKET_API_KEY not set for SportMonks''), [])
          else
            let req = sportmonks_request cfg key path ps in
            (case requests_get w req of
               Inl e \<Rightarrow> Inl (Exception e)
             | Inr r \<Rightarrow>
                 if resp_status r \<noteq> 200 then Inl (HTTPException (resp_status r) (resp_text r))
                 else lift (r_json r),
             [req]))"

definition rapidapi_base :: string where
  "rapidapi_base = ''https://cricbuzz-cricket.p.rapidapi.com''"

definition rapidapi_request :: "string \<Rightarrow> string \<Rightarrow> string \<Rightarrow> (string \<times> json) list option \<Rightarrow> string \<Rightarrow> request" where
  "rapidapi_request key host path ps base =
     \<lparr>url = rstrip_slash base @ ''/'' @ lstrip_slash path,
      headers = [(''X-RapidAPI-Key'', key), (''X-RapidAPI-Host'', host)],
      params = (case ps of None \<Rightarrow> [] | Some p \<Rightarrow> p),
      timeout = 15\<rparr>"

definition rapidapi_get ::
  "config \<Rightarrow> world \<Rightarrow> string \<Rightarrow> (string \<times> json) list option \<Rightarrow> string \<Rightarrow> (py_exception + json) \<times> request list" where
  "rapidapi_get cfg w path ps base =
     (case (RAPIDAPI_KEY cfg, RAPIDAPI_HOST cfg) of
        (Some key, Some host) \<Rightarrow>
          if key = [] \<or> host = []
          then (Inl (HTTPException 501 ''RAPIDAPI_KEY or RAPIDAPI_HOST not configured''), [])
          else
            let req = rapidapi_request key host path ps base in
            (case requests_get w req of
               Inl e \<Rightarrow> Inl (Exception e)
             | Inr r \<Rightarrow>
                 if resp_status r \<noteq> 200 then Inl (HTTPException (resp_status r) (resp_text r))
                 else lift (r_json r),
             [req])
      | _ \<Rightarrow> (Inl (HTTPException 501 ''RAPIDAPI_KEY or RAPIDAPI_HOST not configured''), []))"

text \<open>Reading a key of a returned dict: None when the key is absent or the value is no dict.\<close>

definition field :: "json \<Rightarrow> string \<Rightarrow> json option" where
  "field v k = (case v of JObj kvs \<Rightarrow> map_of kvs k | _ \<Rightarrow> None)"

section \<open>Matches\<close>

text \<open>
  to_card, the inner function of get_matches for SportMonks. The three
  \<^verbatim>\<open>m.get(...) or {}\<close> lines run first, then the dict display evaluates its
  values in order.
\<close>

definition to_card :: "world \<Rightarrow> string \<Rightarrow> json \<Rightarrow> py_error + json" where
  "to_card w type m =
     and_then (dict_get m ''localteam'' JNull) (\<lambda>lt0.
     and_then (dict_get m ''visitorteam'' JNull) (\<lambda>vt0.
     and_then (dict_get m ''venue'' JNull) (\<lambda>venue0.
     let lt = py_or lt0 (JObj []); vt = py_or vt0 (JObj []); venue = py_or venue0 (JObj []) in
     and_then (dict_get m ''id'' JNull) (\<lambda>mid.
     and_then (dict_get m ''status'' JNull) (\<lambda>cond.
     and_then (if truthy cond then and_then (dict_get m ''status'' JNull) (py_upper (str_upper w))
               else py_upper (str_upper w) (JStr type)) (\<lambda>status.
     and_then (dict_get m ''note'' JNull) (\<lambda>note.
     and_then (dict_get m ''runs'' JNull) (\<lambda>runs.
     and_then (dict_get m ''season_id'' JNull) (\<lambda>league_id.
     and_then (dict_get lt ''id'' JNull) (\<lambda>lt_id.
     and_then (dict_get lt ''name'' JNull) (\<lambda>lt_name.
     and_then (dict_get lt ''code'' JNull) (\<lambda>lt_code.
     and_then (dict_get vt ''id'' JNull) (\<lambda>vt_id.
     and_then (dict_get vt ''name'' JNull) (\<lambda>vt_name.
     and_then (dict_get vt ''code'' JNull) (\<lambda>vt_code.
     and_then (dict_get venue ''name'' JNull) (\<lambda>venue_name.
     and_then (dict_get venue ''city'' JNull) (\<lambda>venue_city.
     and_then (dict_get m ''starting_at'' JNull) (\<lambda>starting_at.
     Inr (JObj
       [(''id'', mid),
        (''status'', status),
        (''note'', note),
        (''runs'', runs),
        (''league_id'', league_id),
        (''localteam'', JObj [(''id'', lt_id), (''name'', lt_name), (''code'', lt_code)]),
        (''visitorteam'', JObj [(''id'', vt_id), (''name'', vt_name), (''code'', vt_code)]),
        (''venue'', JObj [(''name'', venue_name), (''city'', venue_city)]),
        (''starting_at'', starting_at)])))))))))))))))))))"

text \<open>The body of the loop over the RapidAPI items (the dict appended to cards).\<close>

definition rapid_card :: "world \<Rightarrow> string \<Rightarrow> json \<Rightarrow> py_error + json" where
  "rapid_card w type m =
     and_then (dict_get m ''matchId'' JNull) (\<lambda>match_id.
     and_then (if truthy match_id then Inr match_id else dict_get m ''id'' JNull) (\<lambda>mid.
     and_then (dict_get m ''matchState'' JNull) (\<lambda>match_state.
     and_then (if truthy match_state then Inr match_state
               else dict_get m ''status'' (JStr type)) (\<lambda>st.
     and_then (py_upper (str_upper w) st) (\<lambda>status.
     and_then (dict_get m ''seriesName'' JNull) (\<lambda>note.
     and_then (dict_get m ''team1'' JNull) (\<lambda>t1a.
     and_then (dict_get (py_or t1a (JObj [])) ''teamName'' JNull) (\<lambda>lt_name.
     and_then (dict_get m ''team1'' JNull) (\<lambda>t1b.
     and_then (dict_get (py_or t1b (JObj [])) ''teamSName'' JNull) (\<lambda>lt_code.
     and_then (dict_get m ''team2'' JNull) (\<lambda>t2a.
     and_then (dict_get (py_or t2a (JObj [])) ''teamName'' JNull) (\<lambda>vt_name.
     and_then (dict_get m ''team2'' JNull) (\<lambda>t2b.
     and_then (dict_get (py_or t2b (JObj [])) ''teamSName'' JNull) (\<lambda>vt_code.
     and_then (dict_get m ''venueInfo'' (JObj [])) (\<lambda>via.
     and_then (dict_get via ''ground'' JNull) (\<lambda>venue_name.
     and_then (dict_get m ''venueInfo'' (JObj [])) (\<lambda>vib.
     and_then (dict_get vib ''city'' JNull) (\<lambda>venue_city.
     and_then (dict_get m ''startTime'' JNull) (\<lambda>starting_at.
     Inr (JObj
       [(''id'', mid),
        (''status'', status),
        (''note'', note),
        (''localteam'', JObj [(''name'', lt_name), (''code'', lt_code)]),
        (''visitorteam'', JObj [(''name'', vt_name), (''code'', vt_code)]),
        (''venue'', JObj [(''name'', venue_name), (''city'', venue_city)]),
        (''starting_at'', starting_at)]))))))))))))))))))))"

definition sportmonks_endpoints :: "(string \<times> string) list" where
  "sportmonks_endpoints =
     [(''live'', ''livescores''),
      (''upcoming'', ''fixtures''),
      (''completed'', ''fixtures/finished'')]"

definition rapidapi_paths :: "(string \<times> string) list" where
  "rapidapi_paths =
     [(''live'', ''matches/v1/live''),
      (''upcoming'', ''matches/v1/upcoming''),
      (''completed'', ''matches/v1/recent'')]"

text \<open>What follows \<^verbatim>\<open>data = sportmonks_get(endpoint, params)\<close> in the try block.\<close>

definition sportmonks_matches :: "world \<Rightarrow> string \<Rightarrow> json \<Rightarrow> py_error + json" where
  "sportmonks_matches w type data =
     and_then (dict_get data ''data'' (JList [])) (\<lambda>raw_matches.
     and_then (py_iter raw_matches) (\<lambda>ms.
     and_then (for_each (to_card w type) ms) (\<lambda>matches.
     Inr (JObj [(''type'', JStr type), (''matches'', JList matches)]))))"

text \<open>What follows \<^verbatim>\<open>data = rapidapi_get(path)\<close> in the try block.\<close>

definition rapidapi_matches :: "world \<Rightarrow> string \<Rightarrow> json \<Rightarrow> py_error + json" where
  "rapidapi_matches w type data =
     and_then (dict_get data ''matches'' data) (\<lambda>items.
     and_then (py_iter items) (\<lambda>ms.
     and_then (for_each (rapid_card w type) ms) (\<lambda>cards.
     Inr (JObj [(''type'', JStr type), (''matches'', JList cards)]))))"

text \<open>The params dict that get_matches passes to sportmonks_get.\<close>

definition matches_params :: "(string \<times> json) list option" where
  "matches_params = Some [(''include'', JStr ''localteam,visitorteam,venue,season'')]"

text \<open>The try block of get_matches.\<close>

definition get_matches_try :: "config \<Rightarrow> world \<Rightarrow> string \<Rightarrow> (py_exception + json) \<times> request list" where
  "get_matches_try cfg w type =
     (if API_PROVIDER cfg = ''sportmonks'' then
        (case subscript sportmonks_endpoints type of
           Inl e \<Rightarrow> (Inl (Exception e), [])
         | Inr endpoint \<Rightarrow>
             (case sportmonks_get cfg w endpoint matches_params of
                (Inl e, tr) \<Rightarrow> (Inl e, tr)
              | (Inr data, tr) \<Rightarrow> (lift (sportmonks_matches w type data), tr)))
      else
        (case subscript rapidapi_paths type of
           Inl e \<Rightarrow> (Inl (Exception e), [])
         | Inr path \<Rightarrow>
             (case rapidapi_get cfg w path None rapidapi_base of
                (Inl e, tr) \<Rightarrow> (Inl e, tr)
              | (Inr data, tr) \<Rightarrow> (lift (rapidapi_matches w type data), tr))))"

text \<open>
  The two except clauses shared by get_matches and get_match_details: an HTTPException
  is raised again, anything else becomes a 500 with \<^verbatim>\<open>str(e)[:200]\<close>.
\<close>

fun except_clauses :: "py_exception \<Rightarrow> py_exception" where
  "except_clauses (HTTPException c d) = HTTPException c d"
| "except_clauses (Exception e) = HTTPException 500 (take 200 (exc_str e))"

definition get_matches :: "config \<Rightarrow> world \<Rightarrow> string \<Rightarrow> (py_exception + json) \<times> request list" where
  "get_matches cfg w type =
     (case get_matches_try cfg w type of
        (Inl e, tr) \<Rightarrow> (Inl (except_clauses e), tr)
      | (Inr v, tr) \<Rightarrow> (Inr v, tr))"

section \<open>Match details\<close>

definition match_detail_includes :: string where
  "match_detail_includes =
     ''localteam,visitorteam,venue'' @ '','' @
     ''runs,batting,bowling,manofmatch,manofseries'' @ '','' @
     ''lineup,balls,scoreboards''"

definition match_detail_params :: "(string \<times> json) list option" where
  "match_detail_params = Some [(''include'', JStr match_detail_includes)]"

definition get_match_details_try :: "config \<Rightarrow> world \<Rightarrow> string \<Rightarrow> (py_exception + json) \<times> request list" where
  "get_match_details_try cfg w match_id =
     (if API_PROVIDER cfg = ''sportmonks'' then
        sportmonks_get cfg w (''fixtures/'' @ match_id) match_detail_params
      else
        rapidapi_get cfg w (''mcenter/v1/'' @ match_id) None rapidapi_base)"

definition get_match_details :: "config \<Rightarrow> world \<Rightarrow> string \<Rightarrow> (py_exception + json) \<times> request list" where
  "get_match_details cfg w match_id =
     (case get_match_details_try cfg w match_id of
        (Inl e, tr) \<Rightarrow> (Inl (except_clauses e), tr)
      | (Inr v, tr) \<Rightarrow> (Inr v, tr))"

section \<open>Rankings\<close>

definition rankings_request :: "string \<Rightarrow> string \<Rightarrow> request" where
  "rankings_request format what =
     \<lparr>url = ''https://www.icc-cricket.com/iccrankings/api/'' @ format @ ''/men/'' @ what,
      headers = [],
      params = [],
      timeout = 15\<rparr>"

text \<open>
  The loop \<^verbatim>\<open>for cat in players.keys()\<close>: one request per category, the dict
  updated in place on a 200. A raise leaves the loop with the requests made so far.
\<close>

fun players_loop ::
  "world \<Rightarrow> string \<Rightarrow> string list \<Rightarrow> (string \<times> json) list \<Rightarrow> (py_error + (string \<times> json) list) \<times> request list" where
  "players_loop w format [] players = (Inr players, [])"
| "players_loop w format (cat # cats) players =
     (let req = rankings_request format cat in
      case requests_get w req of
        Inl e \<Rightarrow> (Inl e, [req])
      | Inr pr \<Rightarrow>
          (case (if resp_status pr = 200
                 then and_then (r_json pr) (\<lambda>j. Inr (AList.update cat j players))
                 else Inr players) of
             Inl e \<Rightarrow> (Inl e, [req])
           | Inr players' \<Rightarrow>
               (case players_loop w format cats players' of (res, tr) \<Rightarrow> (res, req # tr))))"

text \<open>The try block of get_rankings.\<close>

definition get_rankings_try :: "world \<Rightarrow> string \<Rightarrow> (py_error + json) \<times> request list" where
  "get_rankings_try w format =
     (let req = rankings_request format ''teams'' in
      case requests_get w req of
        Inl e \<Rightarrow> (Inl e, [req])
      | Inr r \<Rightarrow>
          (case (if resp_status r = 200 then r_json r else Inr (JList [])) of
             Inl e \<Rightarrow> (Inl e, [req])
           | Inr teams \<Rightarrow>
               (let players = [(''batting'', JList []), (''bowling'', JList []), (''allrounder'', JList [])] in
                case players_loop w format (map fst players) players of
                  (Inl e, tr) \<Rightarrow> (Inl e, req # tr)
                | (Inr players', tr) \<Rightarrow>
                    (Inr (JObj [(''format'', JStr format), (''teams'', teams), (''players'', JObj players')]),
                     req # tr))))"

definition get_rankings :: "world \<Rightarrow> string \<Rightarrow> (py_exception + json) \<times> request list" where
  "get_rankings w format =
     (case get_rankings_try w format of
        (Inl e, tr) \<Rightarrow> (Inl (HTTPException 500 (take 200 (exc_str e))), tr)
      | (Inr v, tr) \<Rightarrow> (Inr v, tr))"

section \<open>News\<close>

definition NEWS_SOURCES :: "string list" where
  "NEWS_SOURCES =
     [''https://www.espncricinfo.com/rss/content/story/feeds/0.xml'',
      ''https://www.icc-cricket.com/rss/news'']"

text \<open>
  The dict appended for one entry. The default of \<^verbatim>\<open>e.get("published", ...)\<close> is
  evaluated before the call, as Python evaluates arguments.
\<close>

definition news_item :: "json \<Rightarrow> json \<Rightarrow> py_error + json" where
  "news_item fd e =
     and_then (dict_get e ''title'' JNull) (\<lambda>title.
     and_then (dict_get e ''link'' JNull) (\<lambda>link.
     and_then (dict_get e ''summary'' (JStr [])) (\<lambda>summary.
     and_then (dict_get e ''updated'' JNull) (\<lambda>updated.
     and_then (dict_get e ''published'' updated) (\<lambda>published.
     and_then (dict_get fd ''title'' (JStr ''RSS'')) (\<lambda>source.
     and_then (dict_get e ''media_thumbnail'' JNull) (\<lambda>thumb.
     and_then (if truthy thumb then Inr thumb
               else and_then (dict_get e ''media_content'' JNull) (\<lambda>content.
                    Inr (py_or content (JList [JObj []])))) (\<lambda>media.
     and_then (py_index0 media) (\<lambda>first.
     and_then (dict_get first ''url'' JNull) (\<lambda>image.
     Inr (JObj
       [(''title'', title),
        (''link'', link),
        (''summary'', summary),
        (''published'', published),
        (''source'', source),
        (''image'', image)])))))))))))"

text \<open>
  The inner loop \<^verbatim>\<open>for e in feed.entries[:20]\<close>, appending to items. It sits
  inside the try block, so a raise at one entry ends the feed and keeps what was
  appended before.
\<close>

fun entries_loop :: "json \<Rightarrow> json list \<Rightarrow> json list \<Rightarrow> json list" where
  "entries_loop fd [] items = items"
| "entries_loop fd (e # es) items =
     (case news_item fd e of
        Inl _ \<Rightarrow> items
      | Inr item \<Rightarrow> entries_loop fd es (items @ [item]))"

text \<open>The outer loop \<^verbatim>\<open>for src in NEWS_SOURCES\<close> with its try/except/continue.\<close>

fun sources_loop :: "world \<Rightarrow> string list \<Rightarrow> json list \<Rightarrow> json list" where
  "sources_loop w [] items = items"
| "sources_loop w (src # srcs) items =
     (case feed_parse w src of
        Inl _ \<Rightarrow> sources_loop w srcs items
      | Inr parsed \<Rightarrow>
          sources_loop w srcs (entries_loop (feed parsed) (take 20 (entries parsed)) items))"

text \<open>get_news with the list of feeds as an argument; the endpoint passes NEWS_SOURCES.\<close>

definition get_news_from :: "world \<Rightarrow> string list \<Rightarrow> json" where
  "get_news_from w srcs = JObj [(''items'', JList (take 50 (sources_loop w srcs [])))]"

definition get_news :: "world \<Rightarrow> json" where
  "get_news w = get_news_from w NEWS_SOURCES"

text \<open>
  What one feed contributes to items: nothing when its parse raises, otherwise what the
  inner loop appends, starting from the empty list.
\<close>

definition feed_items :: "world \<Rightarrow> string \<Rightarrow> json list" where
  "feed_items w src =
     (case feed_parse w src of
        Inl _ \<Rightarrow> []
      | Inr parsed \<Rightarrow> entries_loop (feed parsed) (take 20 (entries parsed)) [])"

section \<open>Tweets\<close>

definition tweets_request :: "string \<Rightarrow> string \<Rightarrow> request" where
  "tweets_request token query =
     \<lparr>url = ''https://api.twitter.com/2/tweets/search/recent'',
      headers = [(''Authorization'', ''Bearer '' @ token)],
      params = [(''query'', JStr query),
                (''tweet.fields'', JStr ''created_at,public_metrics''),
                (''max_results'', JInt 10)],
      timeout = 15\<rparr>"

definition tweet :: "json \<Rightarrow> py_error + json" where
  "tweet t =
     and_then (dict_get t ''id'' JNull) (\<lambda>tid.
     and_then (dict_get t ''text'' JNull) (\<lambda>txt.
     and_then (dict_get t ''created_at'' JNull) (\<lambda>created_at.
     and_then (dict_get t ''public_metrics'' (JObj [])) (\<lambda>metrics.
     Inr (JObj
       [(''id'', tid),
        (''text'', txt),
        (''created_at'', created_at),
        (''metrics'', metrics)])))))"

text \<open>
  get_tweets has no try block: whatever is raised leaves the function as it is.
\<close>

definition get_tweets :: "config \<Rightarrow> world \<Rightarrow> string \<Rightarrow> (py_exception + json) \<times> request list" where
  "get_tweets cfg w query =
     (case X_BEARER_TOKEN cfg of
        None \<Rightarrow> (Inr (JObj [(''tweets'', JList []), (''note'', JStr ''X_BEARER_TOKEN not configured'')]), [])
      | Some token \<Rightarrow>
          if token = []
          then (Inr (JObj [(''tweets'', JList []), (''note'', JStr ''X_BEARER_TOKEN not configured'')]), [])
          else
            let req = tweets_request token query in
            (case requests_get w req of
               Inl e \<Rightarrow> Inl (Exception e)
             | Inr r \<Rightarrow>
                 if resp_status r \<noteq> 200 then Inl (HTTPException (resp_status r) (resp_text r))
                 else lift
                   (and_then (r_json r) (\<lambda>data.
                    and_then (dict_get data ''data'' (JList [])) (\<lambda>raw.
                    and_then (py_iter raw) (\<lambda>ts.
                    and_then (for_each tweet ts) (\<lambda>tweets.
                    Inr (JObj [(''tweets'', JList tweets)])))))),
             [req]))"

section \<open>Example configurations and worlds\<close>

text \<open>Concrete settings and upstream behaviours on which the theorems below are run.\<close>

definition cfg_unconfigured :: config where
  "cfg_unconfigured =
     \<lparr>API_PROVIDER = ''sportmonks'',
      CRICKET_API_KEY = None,
      SPORTMONKS_BASE = ''https://cricket.sportmonks.com/api/v2.0'',
      RAPIDAPI_HOST = None,
      RAPIDAPI_KEY = Some [],
      X_BEARER_TOKEN = None\<rparr>"

definition cfg_sportmonks :: config where
  "cfg_sportmonks =
     \<lparr>API_PROVIDER = ''sportmonks'',
      CRICKET_API_KEY = Some ''k1'',
      SPORTMONKS_BASE = ''https://cricket.sportmonks.com/api/v2.0/'',
      RAPIDAPI_HOST = None,
      RAPIDAPI_KEY = None,
      X_BEARER_TOKEN = None\<rparr>"

definition cfg_rapidapi :: config where
  "cfg_rapidapi =
     \<lparr>API_PROVIDER = ''rapidapi'',
      CRICKET_API_KEY = None,
      SPORTMONKS_BASE = ''https://cricket.sportmonks.com/api/v2.0'',
      RAPIDAPI_HOST = Some ''cricbuzz-cricket.p.rapidapi.com'',
      RAPIDAPI_KEY = Some ''k2'',
      X_BEARER_TOKEN = None\<rparr>"

text \<open>
  An upstream that answers every request the same way, and no feed that parses. The
  example worlds handle ASCII text only, on which \<^verbatim>\<open>str.upper\<close> is \<open>ascii_upper\<close>.
\<close>

definition world_answering :: "string + response \<Rightarrow> world" where
  "world_answering outcome =
     \<lparr>http_get = (\<lambda>req. outcome),
      feed_parse = (\<lambda>src. Inl ''feed unavailable''),
      str_upper = ascii_upper\<rparr>"

definition ok_response :: "json \<Rightarrow> response" where
  "ok_response j = \<lparr>resp_status = 200, resp_text = [], resp_json = Inr j\<rparr>"

definition error_response :: "int \<Rightarrow> string \<Rightarrow> response" where
  "error_response code body =
     \<lparr>resp_status = code, resp_text = body, resp_json = Inl ''Expecting value''\<rparr>"

text \<open>
  A rankings site on which only the ODI bowling table is up: every other request is
  answered 503.
\<close>

definition world_bowling_only :: world where
  "world_bowling_only =
     \<lparr>http_get = (\<lambda>req.
        if url req = ''https://www.icc-cricket.com/iccrankings/api/odi/men/bowling''
        then Inr (ok_response (JList [JStr ''Bumrah'']))
        else Inr (error_response 503 ''Service Unavailable'')),
      feed_parse = (\<lambda>src. Inl ''feed unavailable''),
      str_upper = ascii_upper\<rparr>"

text \<open>
  Feeds for get_news: the URL bad does not parse, every other URL gives a feed titled
  ESPN with 25 identical entries.
\<close>

definition sample_entry :: json where
  "sample_entry = JObj [(''title'', JStr ''Final''), (''link'', JStr ''https://example.org/1'')]"

definition sample_item :: json where
  "sample_item =
     JObj [(''title'', JStr ''Final''),
           (''link'', JStr ''https://example.org/1''),
           (''summary'', JStr []),
           (''published'', JNull),
           (''source'', JStr ''ESPN''),
           (''image'', JNull)]"

definition world_feeds :: world where
  "world_feeds =
     \<lparr>http_get = (\<lambda>req. Inl ''timed out''),
      feed_parse = (\<lambda>src.
        if src = ''bad'' then Inl ''not well-formed''
        else Inr \<lparr>entries = replicate 25 sample_entry, feed = JObj [(''title'', JStr ''ESPN'')]\<rparr>),
      str_upper = ascii_upper\<rparr>"

text \<open>
  Match records. The SportMonks record of the spec's example (a status and a local team,
  nothing else) with its card; a SportMonks record whose status is the empty string,
  with its card for the type live; a RapidAPI record with both matchState and status,
  one team, and no venueInfo, with its card.
\<close>

definition primary_record :: json where
  "primary_record =
     JObj [(''status'', JStr ''Live''),
           (''localteam'', JObj [(''id'', JInt 1), (''name'', JStr ''India''), (''code'', JStr ''IND'')])]"

definition primary_card :: json where
  "primary_card =
     JObj [(''id'', JNull),
           (''status'', JStr ''LIVE''),
           (''note'', JNull),
           (''runs'', JNull),
           (''league_id'', JNull),
           (''localteam'', JObj [(''id'', JInt 1), (''name'', JStr ''India''), (''code'', JStr ''IND'')]),
           (''visitorteam'', JObj [(''id'', JNull), (''name'', JNull), (''code'', JNull)]),
           (''venue'', JObj [(''name'', JNull), (''city'', JNull)]),
           (''starting_at'', JNull)]"

definition empty_status_record :: json where
  "empty_status_record = JObj [(''id'', JInt 7), (''status'', JStr [])]"

definition empty_status_card :: json where
  "empty_status_card =
     JObj [(''id'', JInt 7),
           (''status'', JStr ''LIVE''),
           (''note'', JNull),
           (''runs'', JNull),
           (''league_id'', JNull),
           (''localteam'', JObj [(''id'', JNull), (''name'', JNull), (''code'', JNull)]),
           (''visitorteam'', JObj [(''id'', JNull), (''name'', JNull), (''code'', JNull)]),
           (''venue'', JObj [(''name'', JNull), (''city'', JNull)]),
           (''starting_at'', JNull)]"

definition alternate_record :: json where
  "alternate_record =
     JObj [(''matchId'', JInt 9),
           (''matchState'', JStr ''In Progress''),
           (''status'', JStr ''Delayed''),
           (''team1'', JObj [(''teamName'', JStr ''India''), (''teamSName'', JStr ''IND'')])]"

definition alternate_card :: json where
  "alternate_card =
     JObj [(''id'', JInt 9),
           (''status'', JStr ''IN PROGRESS''),
           (''note'', JNull),
           (''localteam'', JObj [(''name'', JStr ''India''), (''code'', JStr ''IND'')]),
           (''visitorteam'', JObj [(''name'', JNull), (''code'', JNull)]),
           (''venue'', JObj [(''name'', JNull), (''city'', JNull)]),
           (''starting_at'', JNull)]"

text \<open>
  A RapidAPI record whose teams and venueInfo are all present with the value null, the
  same record without the venueInfo, and the card of the latter.
\<close>

definition null_venue_record :: json where
  "null_venue_record =
     JObj [(''matchId'', JInt 9), (''team1'', JNull), (''team2'', JNull), (''venueInfo'', JNull)]"

definition null_teams_record :: json where
  "null_teams_record = JObj [(''matchId'', JInt 9), (''team1'', JNull), (''team2'', JNull)]"

definition null_teams_card :: json where
  "null_teams_card =
     JObj [(''id'', JInt 9),
           (''status'', JStr ''LIVE''),
           (''note'', JNull),
           (''localteam'', JObj [(''name'', JNull), (''code'', JNull)]),
           (''visitorteam'', JObj [(''name'', JNull), (''code'', JNull)]),
           (''venue'', JObj [(''name'', JNull), (''city'', JNull)]),
           (''starting_at'', JNull)]"

section \<open>Basic facts\<close>

lemma and_then_Inl [simp]: "and_then (Inl e) f = Inl e"
  by (simp add: and_then_def)

lemma and_then_Inr [simp]: "and_then (Inr x) f = f x"
  by (simp add: and_then_def)

lemma lift_Inl [simp]: "lift (Inl e) = Inl (Exception e)"
  by (simp add: lift_def)

lemma lift_Inr [simp]: "lift (Inr x) = Inr x"
  by (simp add: lift_def)

lemma lookup_Nil [simp]: "lookup [] k d = d"
  by (simp add: lookup_def)

lemma lookup_Cons [simp]: "lookup ((k', v) # kvs) k d = (if k' = k then v else lookup kvs k d)"
  by (simp add: lookup_def)

lemma lookup_absent [simp]: "map_of kvs k = None \<Longrightarrow> lookup kvs k d = d"
  by (simp add: lookup_def)

lemma lookup_present [simp]: "map_of kvs k = Some v \<Longrightarrow> lookup kvs k d = v"
  by (simp add: lookup_def)

lemma sportmonks_get_unset:
  "unset (CRICKET_API_KEY cfg) \<Longrightarrow>
   sportmonks_get cfg w path ps =
     (Inl (HTTPException 501 ''CRICKET_API_KEY not set for SportMonks''), [])"
  by (simp add: sportmonks_get_def unset_def split: option.splits)

lemma rapidapi_get_unset:
  "unset (RAPIDAPI_KEY cfg) \<or> unset (RAPIDAPI_HOST cfg) \<Longrightarrow>
   rapidapi_get cfg w path ps base =
     (Inl (HTTPException 501 ''RAPIDAPI_KEY or RAPIDAPI_HOST not configured''), [])"
  by (auto simp add: rapidapi_get_def unset_def split: option.splits)

lemma sportmonks_get_response:
  assumes "CRICKET_API_KEY cfg = Some key" "key \<noteq> []"
    and "http_get w (sportmonks_request cfg key path ps) = Inr r"
  shows "sportmonks_get cfg w path ps =
           (if resp_status r \<noteq> 200 then Inl (HTTPException (resp_status r) (resp_text r))
            else lift (r_json r),
            [sportmonks_request cfg key path ps])"
  using assms by (simp add: sportmonks_get_def requests_get_def Let_def)

lemma sportmonks_get_raises:
  assumes "CRICKET_API_KEY cfg = Some key" "key \<noteq> []"
    and "http_get w (sportmonks_request cfg key path ps) = Inl msg"
  shows "sportmonks_get cfg w path ps =
           (Inl (Exception (RequestException msg)), [sportmonks_request cfg key path ps])"
  using assms by (simp add: sportmonks_get_def requests_get_def Let_def)

lemma rapidapi_get_response:
  assumes "RAPIDAPI_KEY cfg = Some key" "key \<noteq> []" "RAPIDAPI_HOST cfg = Some host" "host \<noteq> []"
    and "http_get w (rapidapi_request key host path ps base) = Inr r"
  shows "rapidapi_get cfg w path ps base =
           (if resp_status r \<noteq> 200 then Inl (HTTPException (resp_status r) (resp_text r))
            else lift (r_json r),
            [rapidapi_request key host path ps base])"
  using assms by (simp add: rapidapi_get_def requests_get_def Let_def)

lemma rapidapi_get_raises:
  assumes "RAPIDAPI_KEY cfg = Some key" "key \<noteq> []" "RAPIDAPI_HOST cfg = Some host" "host \<noteq> []"
    and "http_get w (rapidapi_request key host path ps base) = Inl msg"
  shows "rapidapi_get cfg w path ps base =
           (Inl (Exception (RequestException msg)), [rapidapi_request key host path ps base])"
  using assms by (simp add: rapidapi_get_def requests_get_def Let_def)

lemma subscript_sportmonks [simp]:
  "subscript sportmonks_endpoints ''live'' = Inr ''livescores''"
  "subscript sportmonks_endpoints ''upcoming'' = Inr ''fixtures''"
  "subscript sportmonks_endpoints ''completed'' = Inr ''fixtures/finished''"
  by (simp_all add: subscript_def sportmonks_endpoints_def)

lemma subscript_rapidapi [simp]:
  "subscript rapidapi_paths ''live'' = Inr ''matches/v1/live''"
  "subscript rapidapi_paths ''upcoming'' = Inr ''matches/v1/upcoming''"
  "subscript rapidapi_paths ''completed'' = Inr ''matches/v1/recent''"
  by (simp_all add: subscript_def rapidapi_paths_def)

section \<open>Missing credentials\<close>

text \<open>
  C2. A provider client whose credential is unset (None or the empty string) fails with
  HTTPException 501 and the list of requests it issued is empty: sportmonks_get when
  CRICKET_API_KEY is unset, rapidapi_get when RAPIDAPI_KEY or RAPIDAPI_HOST is unset,
  whatever the path, the parameters and the upstream.
\<close>

theorem unconfigured_provider_501:
  "(unset (CRICKET_API_KEY cfg) \<longrightarrow>
      sportmonks_get cfg w path ps =
        (Inl (HTTPException 501 ''CRICKET_API_KEY not set for SportMonks''), []))
   \<and> (unset (RAPIDAPI_KEY cfg) \<or> unset (RAPIDAPI_HOST cfg) \<longrightarrow>
      rapidapi_get cfg w path ps base =
        (Inl (HTTPException 501 ''RAPIDAPI_KEY or RAPIDAPI_HOST not configured''), []))"
  using sportmonks_get_unset rapidapi_get_unset by blast

theorem unconfigured_provider_501_witness:
  "unset (CRICKET_API_KEY cfg_unconfigured)
   \<and> unset (RAPIDAPI_KEY cfg_unconfigured)
   \<and> sportmonks_get cfg_unconfigured (world_answering (Inr (ok_response JNull))) ''livescores'' None =
        (Inl (HTTPException 501 ''CRICKET_API_KEY not set for SportMonks''), [])
   \<and> rapidapi_get cfg_unconfigured (world_answering (Inr (ok_response JNull))) ''matches/v1/live'' None
        rapidapi_base =
        (Inl (HTTPException 501 ''RAPIDAPI_KEY or RAPIDAPI_HOST not configured''), [])"
  using unconfigured_provider_501
          [of cfg_unconfigured "world_answering (Inr (ok_response JNull))" "''livescores''" None]
        unconfigured_provider_501
          [of cfg_unconfigured "world_answering (Inr (ok_response JNull))" "''matches/v1/live''" None
              rapidapi_base]
  by (simp add: cfg_unconfigured_def unset_def)

section \<open>Tweets without a token\<close>

text \<open>
  C8. When X_BEARER_TOKEN is unset, get_tweets returns normally (status 200) the dict
  with an empty tweets list and the note, for every query, and issues no request.
\<close>

theorem tweets_without_token:
  "unset (X_BEARER_TOKEN cfg) \<Longrightarrow>
   get_tweets cfg w query =
     (Inr (JObj [(''tweets'', JList []), (''note'', JStr ''X_BEARER_TOKEN not configured'')]), [])"
  by (simp add: get_tweets_def unset_def split: option.splits)

theorem tweets_without_token_witness:
  "unset (X_BEARER_TOKEN cfg_sportmonks)
   \<and> get_tweets cfg_sportmonks (world_answering (Inl ''timed out'')) ''imVkohli'' =
       (Inr (JObj [(''tweets'', JList []), (''note'', JStr ''X_BEARER_TOKEN not configured'')]), [])"
  using tweets_without_token [of cfg_sportmonks "world_answering (Inl ''timed out'')" "''imVkohli''"]
  by (simp add: cfg_sportmonks_def unset_def)

section \<open>The endpoints in terms of the provider clients\<close>

lemma get_matches_sportmonks:
  assumes "API_PROVIDER cfg = ''sportmonks''"
    and "subscript sportmonks_endpoints type = Inr endpoint"
  shows "get_matches cfg w type =
           (case sportmonks_get cfg w endpoint matches_params of
              (Inl e, tr) \<Rightarrow> (Inl (except_clauses e), tr)
            | (Inr data, tr) \<Rightarrow>
                (case sportmonks_matches w type data of
                   Inl e \<Rightarrow> Inl (HTTPException 500 (take 200 (exc_str e)))
                 | Inr v \<Rightarrow> Inr v, tr))"
  using assms
  by (simp add: get_matches_def get_matches_try_def split: prod.splits sum.splits)

lemma get_matches_rapidapi:
  assumes "API_PROVIDER cfg \<noteq> ''sportmonks''"
    and "subscript rapidapi_paths type = Inr path"
  shows "get_matches cfg w type =
           (case rapidapi_get cfg w path None rapidapi_base of
              (Inl e, tr) \<Rightarrow> (Inl (except_clauses e), tr)
            | (Inr data, tr) \<Rightarrow>
                (case rapidapi_matches w type data of
                   Inl e \<Rightarrow> Inl (HTTPException 500 (take 200 (exc_str e)))
                 | Inr v \<Rightarrow> Inr v, tr))"
  using assms
  by (simp add: get_matches_def get_matches_try_def split: prod.splits sum.splits)

lemma get_match_details_sportmonks:
  assumes "API_PROVIDER cfg = ''sportmonks''"
  shows "get_match_details cfg w match_id =
           (case sportmonks_get cfg w (''fixtures/'' @ match_id) match_detail_params of
              (Inl e, tr) \<Rightarrow> (Inl (except_clauses e), tr)
            | (Inr data, tr) \<Rightarrow> (Inr data, tr))"
  using assms
  by (simp add: get_match_details_def get_match_details_try_def split: prod.splits sum.splits)

lemma get_match_details_rapidapi:
  assumes "API_PROVIDER cfg \<noteq> ''sportmonks''"
  shows "get_match_details cfg w match_id =
           (case rapidapi_get cfg w (''mcenter/v1/'' @ match_id) None rapidapi_base of
              (Inl e, tr) \<Rightarrow> (Inl (except_clauses e), tr)
            | (Inr data, tr) \<Rightarrow> (Inr data, tr))"
  using assms
  by (simp add: get_match_details_def get_match_details_try_def split: prod.splits sum.splits)

section \<open>Upstream errors\<close>

text \<open>
  C6. When the upstream answers a provider client's request with a status code other
  than 200, the client raises HTTPException with exactly that status code and the
  response text as detail, after that one request; get_matches and get_match_details,
  for either provider, raise the same HTTPException unchanged.
\<close>

theorem upstream_error_passes_through:
  assumes "resp_status r \<noteq> 200"
  shows
  "(CRICKET_API_KEY cfg = Some key \<and> key \<noteq> []
      \<and> http_get w (sportmonks_request cfg key path ps) = Inr r \<longrightarrow>
      sportmonks_get cfg w path ps =
        (Inl (HTTPException (resp_status r) (resp_text r)), [sportmonks_request cfg key path ps]))
   \<and> (RAPIDAPI_KEY cfg = Some rkey \<and> rkey \<noteq> [] \<and> RAPIDAPI_HOST cfg = Some host \<and> host \<noteq> []
      \<and> http_get w (rapidapi_request rkey host path ps base) = Inr r \<longrightarrow>
      rapidapi_get cfg w path ps base =
        (Inl (HTTPException (resp_status r) (resp_text r)), [rapidapi_request rkey host path ps base]))
   \<and> (API_PROVIDER cfg = ''sportmonks'' \<and> CRICKET_API_KEY cfg = Some key \<and> key \<noteq> []
      \<and> subscript sportmonks_endpoints type = Inr endpoint
      \<and> http_get w (sportmonks_request cfg key endpoint matches_params) = Inr r \<longrightarrow>
      get_matches cfg w type =
        (Inl (HTTPException (resp_status r) (resp_text r)),
         [sportmonks_request cfg key endpoint matches_params]))
   \<and> (API_PROVIDER cfg \<noteq> ''sportmonks''
      \<and> RAPIDAPI_KEY cfg = Some rkey \<and> rkey \<noteq> [] \<and> RAPIDAPI_HOST cfg = Some host \<and> host \<noteq> []
      \<and> subscript rapidapi_paths type = Inr rpath
      \<and> http_get w (rapidapi_request rkey host rpath None rapidapi_base) = Inr r \<longrightarrow>
      get_matches cfg w type =
        (Inl (HTTPException (resp_status r) (resp_text r)),
         [rapidapi_request rkey host rpath None rapidapi_base]))
   \<and> (API_PROVIDER cfg = ''sportmonks'' \<and> CRICKET_API_KEY cfg = Some key \<and> key \<noteq> []
      \<and> http_get w (sportmonks_request cfg key (''fixtures/'' @ match_id) match_detail_params) = Inr r \<longrightarrow>
      get_match_details cfg w match_id =
        (Inl (HTTPException (resp_status r) (resp_text r)),
         [sportmonks_request cfg key (''fixtures/'' @ match_id) match_detail_params]))
   \<and> (API_PROVIDER cfg \<noteq> ''sportmonks''
      \<and> RAPIDAPI_KEY cfg = Some rkey \<and> rkey \<noteq> [] \<and> RAPIDAPI_HOST cfg = Some host \<and> host \<noteq> []
      \<and> http_get w (rapidapi_request rkey host (''mcenter/v1/'' @ match_id) None rapidapi_base) = Inr r \<longrightarrow>
      get_match_details cfg w match_id =
        (Inl (HTTPException (resp_status r) (resp_text r)),
         [rapidapi_request rkey host (''mcenter/v1/'' @ match_id) None rapidapi_base]))"
  using assms
  by (simp add: sportmonks_get_response rapidapi_get_response get_matches_sportmonks
        get_matches_rapidapi get_match_details_sportmonks get_match_details_rapidapi)

theorem upstream_error_passes_through_witness:
  "resp_status (error_response 404 ''Not Found'') \<noteq> 200
   \<and> sportmonks_get cfg_sportmonks (world_answering (Inr (error_response 404 ''Not Found'')))
        ''livescores'' None =
       (Inl (HTTPException 404 ''Not Found''),
        [\<lparr>url = ''https://cricket.sportmonks.com/api/v2.0/livescores'', headers = [],
          params = [(''api_token'', JStr ''k1'')], timeout = 15\<rparr>])
   \<and> get_matches cfg_sportmonks (world_answering (Inr (error_response 404 ''Not Found''))) ''live'' =
       (Inl (HTTPException 404 ''Not Found''),
        [\<lparr>url = ''https://cricket.sportmonks.com/api/v2.0/livescores'', headers = [],
          params = [(''include'', JStr ''localteam,visitorteam,venue,season''),
                    (''api_token'', JStr ''k1'')],
          timeout = 15\<rparr>])
   \<and> get_match_details cfg_rapidapi (world_answering (Inr (error_response 404 ''Not Found''))) ''42'' =
       (Inl (HTTPException 404 ''Not Found''),
        [\<lparr>url = ''https://cricbuzz-cricket.p.rapidapi.com/mcenter/v1/42'',
          headers = [(''X-RapidAPI-Key'', ''k2''),
                     (''X-RapidAPI-Host'', ''cricbuzz-cricket.p.rapidapi.com'')],
          params = [], timeout = 15\<rparr>])"
  using upstream_error_passes_through
          [of "error_response 404 ''Not Found''" cfg_sportmonks "''k1''"
              "world_answering (Inr (error_response 404 ''Not Found''))" "''livescores''" None
              "''k2''" "''h''" rapidapi_base "''live''" "''livescores''" "''matches/v1/live''" "''42''"]
        upstream_error_passes_through
          [of "error_response 404 ''Not Found''" cfg_rapidapi "''k1''"
              "world_answering (Inr (error_response 404 ''Not Found''))" "''livescores''" None
              "''k2''" "''cricbuzz-cricket.p.rapidapi.com''" rapidapi_base "''live''" "''livescores''"
              "''matches/v1/live''" "''42''"]
  by (simp add: cfg_sportmonks_def cfg_rapidapi_def world_answering_def error_response_def
        sportmonks_request_def rapidapi_request_def matches_params_def rstrip_slash_def
        lstrip_slash_def rapidapi_base_def)

lemma except_clauses_http: "\<exists>c d. except_clauses e = HTTPException c d"
  by (cases e) simp_all

section \<open>Unexpected exceptions\<close>

text \<open>
  C9. An exception other than HTTPException raised in the try block of get_matches or
  get_match_details leaves the endpoint as HTTPException 500 whose detail is the first
  200 characters of the exception's message, so at most 200 characters long; as a
  result neither endpoint ever raises anything but an HTTPException. A failure of the
  network call itself is one such exception.
\<close>

theorem unexpected_exception_500:
  "(get_matches_try cfg w type = (Inl (Exception e), tr) \<longrightarrow>
      get_matches cfg w type = (Inl (HTTPException 500 (take 200 (exc_str e))), tr))
   \<and> (get_match_details_try cfg w match_id = (Inl (Exception e), tr) \<longrightarrow>
      get_match_details cfg w match_id = (Inl (HTTPException 500 (take 200 (exc_str e))), tr))
   \<and> length (take 200 (exc_str e)) \<le> 200
   \<and> (\<forall>x t. get_matches cfg w type = (Inl x, t) \<longrightarrow> (\<exists>c d. x = HTTPException c d))
   \<and> (\<forall>x t. get_match_details cfg w match_id = (Inl x, t) \<longrightarrow> (\<exists>c d. x = HTTPException c d))
   \<and> (API_PROVIDER cfg = ''sportmonks'' \<and> CRICKET_API_KEY cfg = Some key \<and> key \<noteq> []
      \<and> subscript sportmonks_endpoints type = Inr endpoint
      \<and> http_get w (sportmonks_request cfg key endpoint matches_params) = Inl msg \<longrightarrow>
      get_matches cfg w type =
        (Inl (HTTPException 500 (take 200 msg)),
         [sportmonks_request cfg key endpoint matches_params]))
   \<and> (API_PROVIDER cfg \<noteq> ''sportmonks''
      \<and> RAPIDAPI_KEY cfg = Some rkey \<and> rkey \<noteq> [] \<and> RAPIDAPI_HOST cfg = Some host \<and> host \<noteq> []
      \<and> http_get w (rapidapi_request rkey host (''mcenter/v1/'' @ match_id) None rapidapi_base) = Inl msg \<longrightarrow>
      get_match_details cfg w match_id =
        (Inl (HTTPException 500 (take 200 msg)),
         [rapidapi_request rkey host (''mcenter/v1/'' @ match_id) None rapidapi_base]))"
proof -
  have a: "get_matches_try cfg w type = (Inl (Exception e), tr) \<longrightarrow>
      get_matches cfg w type = (Inl (HTTPException 500 (take 200 (exc_str e))), tr)"
    by (simp add: get_matches_def)
  have b: "get_match_details_try cfg w match_id = (Inl (Exception e), tr) \<longrightarrow>
      get_match_details cfg w match_id = (Inl (HTTPException 500 (take 200 (exc_str e))), tr)"
    by (simp add: get_match_details_def)
  have c: "length (take 200 (exc_str e)) \<le> 200"
    by simp
  have d: "\<forall>x t. get_matches cfg w type = (Inl x, t) \<longrightarrow> (\<exists>c d. x = HTTPException c d)"
    using except_clauses_http
    by (auto simp add: get_matches_def split: prod.splits sum.splits)
  have e: "\<forall>x t. get_match_details cfg w match_id = (Inl x, t) \<longrightarrow> (\<exists>c d. x = HTTPException c d)"
    using except_clauses_http
    by (auto simp add: get_match_details_def split: prod.splits sum.splits)
  have f: "API_PROVIDER cfg = ''sportmonks'' \<and> CRICKET_API_KEY cfg = Some key \<and> key \<noteq> []
      \<and> subscript sportmonks_endpoints type = Inr endpoint
      \<and> http_get w (sportmonks_request cfg key endpoint matches_params) = Inl msg \<longrightarrow>
      get_matches cfg w type =
        (Inl (HTTPException 500 (take 200 msg)),
         [sportmonks_request cfg key endpoint matches_params])"
    by (simp add: get_matches_sportmonks sportmonks_get_raises)
  have g: "API_PROVIDER cfg \<noteq> ''sportmonks''
      \<and> RAPIDAPI_KEY cfg = Some rkey \<and> rkey \<noteq> [] \<and> RAPIDAPI_HOST cfg = Some host \<and> host \<noteq> []
      \<and> http_get w (rapidapi_request rkey host (''mcenter/v1/'' @ match_id) None rapidapi_base) = Inl msg \<longrightarrow>
      get_match_details cfg w match_id =
        (Inl (HTTPException 500 (take 200 msg)),
         [rapidapi_request rkey host (''mcenter/v1/'' @ match_id) None rapidapi_base])"
    by (simp add: get_match_details_rapidapi rapidapi_get_raises)
  from a b c d e f g show ?thesis by blast
qed

theorem unexpected_exception_500_witness:
  "get_matches_try cfg_sportmonks (world_answering (Inl (replicate 250 CHR ''x''))) ''live'' =
     (Inl (Exception (RequestException (replicate 250 CHR ''x''))),
      [sportmonks_request cfg_sportmonks ''k1'' ''livescores'' matches_params])
   \<and> get_matches cfg_sportmonks (world_answering (Inl (replicate 250 CHR ''x''))) ''live'' =
     (Inl (HTTPException 500 (replicate 200 CHR ''x'')),
      [sportmonks_request cfg_sportmonks ''k1'' ''livescores'' matches_params])
   \<and> get_match_details cfg_rapidapi (world_answering (Inl (replicate 250 CHR ''x''))) ''42'' =
     (Inl (HTTPException 500 (replicate 200 CHR ''x'')),
      [rapidapi_request ''k2'' ''cricbuzz-cricket.p.rapidapi.com'' ''mcenter/v1/42'' None rapidapi_base])"
proof -
  let ?w = "world_answering (Inl (replicate 250 CHR ''x''))"
  have t: "get_matches_try cfg_sportmonks ?w ''live'' =
     (Inl (Exception (RequestException (replicate 250 CHR ''x''))),
      [sportmonks_request cfg_sportmonks ''k1'' ''livescores'' matches_params])"
    by (simp add: get_matches_try_def sportmonks_get_raises [of _ "''k1''"] cfg_sportmonks_def
          world_answering_def)
  have k: "API_PROVIDER cfg_rapidapi \<noteq> ''sportmonks'' \<and> RAPIDAPI_KEY cfg_rapidapi = Some ''k2''
      \<and> RAPIDAPI_HOST cfg_rapidapi = Some ''cricbuzz-cricket.p.rapidapi.com''"
    by (simp add: cfg_rapidapi_def)
  have m: "get_matches cfg_sportmonks ?w ''live'' =
     (Inl (HTTPException 500 (replicate 200 CHR ''x'')),
      [sportmonks_request cfg_sportmonks ''k1'' ''livescores'' matches_params])"
    using t
      unexpected_exception_500
        [of cfg_sportmonks ?w "''live''" "RequestException (replicate 250 CHR ''x'')"
            "[sportmonks_request cfg_sportmonks ''k1'' ''livescores'' matches_params]"
            "''42''" "''k1''" "''livescores''" "replicate 250 CHR ''x''" "''k2''" "''h''"]
    by simp
  have d: "get_match_details cfg_rapidapi ?w ''42'' =
     (Inl (HTTPException 500 (replicate 200 CHR ''x'')),
      [rapidapi_request ''k2'' ''cricbuzz-cricket.p.rapidapi.com'' ''mcenter/v1/42'' None rapidapi_base])"
    using k
      unexpected_exception_500
        [of cfg_rapidapi ?w "''live''" "RequestException (replicate 250 CHR ''x'')" "[]"
            "''42''" "''k1''" "''livescores''" "replicate 250 CHR ''x''" "''k2''"
            "''cricbuzz-cricket.p.rapidapi.com''"]
    by (simp add: world_answering_def)
  from t m d show ?thesis by simp
qed

lemma get_matches_requests_sportmonks:
  assumes "API_PROVIDER cfg = ''sportmonks''" "CRICKET_API_KEY cfg = Some key" "key \<noteq> []"
    and "subscript sportmonks_endpoints type = Inr endpoint"
  shows "snd (get_matches cfg w type) = [sportmonks_request cfg key endpoint matches_params]"
  using assms
  by (simp add: get_matches_sportmonks sportmonks_get_def Let_def split: prod.splits sum.splits)

lemma get_matches_requests_rapidapi:
  assumes "API_PROVIDER cfg \<noteq> ''sportmonks''"
    and "RAPIDAPI_KEY cfg = Some key" "key \<noteq> []" "RAPIDAPI_HOST cfg = Some host" "host \<noteq> []"
    and "subscript rapidapi_paths type = Inr path"
  shows "snd (get_matches cfg w type) = [rapidapi_request key host path None rapidapi_base]"
  using assms
  by (simp add: get_matches_rapidapi rapidapi_get_def Let_def split: prod.splits sum.splits)

lemma request_urls:
  "url (sportmonks_request cfg key path ps) =
     rstrip_slash (SPORTMONKS_BASE cfg) @ ''/'' @ lstrip_slash path"
  "url (rapidapi_request rkey host path ps base) = rstrip_slash base @ ''/'' @ lstrip_slash path"
  by (simp_all add: sportmonks_request_def rapidapi_request_def)

section \<open>Resource paths of the match lists\<close>

text \<open>
  C5, as the spec states it, fails: for completed matches the SportMonks resource path is
  fixtures/finished, not fixtures-finished, and the RapidAPI paths carry the segment v1
  (matches/v1/live, not matches/live).
\<close>

theorem resource_paths_counterexample:
  "subscript sportmonks_endpoints ''completed'' \<noteq> Inr ''fixtures-finished''
   \<and> subscript rapidapi_paths ''live'' \<noteq> Inr ''matches/live''
   \<and> subscript rapidapi_paths ''upcoming'' \<noteq> Inr ''matches/upcoming''
   \<and> subscript rapidapi_paths ''completed'' \<noteq> Inr ''matches/recent''
   \<and> map url (snd (get_matches cfg_sportmonks (world_answering (Inr (ok_response JNull))) ''completed'')) =
       [''https://cricket.sportmonks.com/api/v2.0/fixtures/finished'']
   \<and> map url (snd (get_matches cfg_rapidapi (world_answering (Inr (ok_response JNull))) ''live'')) =
       [''https://cricbuzz-cricket.p.rapidapi.com/matches/v1/live'']"
  by (simp add: get_matches_requests_sportmonks [of _ "''k1''"]
        get_matches_requests_rapidapi [of _ "''k2''" "''cricbuzz-cricket.p.rapidapi.com''"]
        request_urls cfg_sportmonks_def cfg_rapidapi_def rstrip_slash_def lstrip_slash_def
        rapidapi_base_def)

text \<open>
  C5, amended. get_matches maps the category to these resource paths: for SportMonks
  live to livescores, upcoming to fixtures, completed to fixtures/finished; for RapidAPI
  live to matches/v1/live, upcoming to matches/v1/upcoming, completed to
  matches/v1/recent. With the provider's credentials set, get_matches issues exactly one
  request, to the provider's base URL followed by that path.
\<close>

theorem resource_paths:
  "subscript sportmonks_endpoints ''live'' = Inr ''livescores''
   \<and> subscript sportmonks_endpoints ''upcoming'' = Inr ''fixtures''
   \<and> subscript sportmonks_endpoints ''completed'' = Inr ''fixtures/finished''
   \<and> subscript rapidapi_paths ''live'' = Inr ''matches/v1/live''
   \<and> subscript rapidapi_paths ''upcoming'' = Inr ''matches/v1/upcoming''
   \<and> subscript rapidapi_paths ''completed'' = Inr ''matches/v1/recent''
   \<and> (API_PROVIDER cfg = ''sportmonks'' \<and> CRICKET_API_KEY cfg = Some key \<and> key \<noteq> [] \<longrightarrow>
        map url (snd (get_matches cfg w ''live'')) =
          [rstrip_slash (SPORTMONKS_BASE cfg) @ ''/livescores'']
        \<and> map url (snd (get_matches cfg w ''upcoming'')) =
          [rstrip_slash (SPORTMONKS_BASE cfg) @ ''/fixtures'']
        \<and> map url (snd (get_matches cfg w ''completed'')) =
          [rstrip_slash (SPORTMONKS_BASE cfg) @ ''/fixtures/finished''])
   \<and> (API_PROVIDER cfg \<noteq> ''sportmonks''
        \<and> RAPIDAPI_KEY cfg = Some rkey \<and> rkey \<noteq> [] \<and> RAPIDAPI_HOST cfg = Some host \<and> host \<noteq> [] \<longrightarrow>
        map url (snd (get_matches cfg w ''live'')) =
          [''https://cricbuzz-cricket.p.rapidapi.com/matches/v1/live'']
        \<and> map url (snd (get_matches cfg w ''upcoming'')) =
          [''https://cricbuzz-cricket.p.rapidapi.com/matches/v1/upcoming'']
        \<and> map url (snd (get_matches cfg w ''completed'')) =
          [''https://cricbuzz-cricket.p.rapidapi.com/matches/v1/recent''])"
proof -
  have s: "API_PROVIDER cfg = ''sportmonks'' \<and> CRICKET_API_KEY cfg = Some key \<and> key \<noteq> [] \<longrightarrow>
        map url (snd (get_matches cfg w ''live'')) =
          [rstrip_slash (SPORTMONKS_BASE cfg) @ ''/livescores'']
        \<and> map url (snd (get_matches cfg w ''upcoming'')) =
          [rstrip_slash (SPORTMONKS_BASE cfg) @ ''/fixtures'']
        \<and> map url (snd (get_matches cfg w ''completed'')) =
          [rstrip_slash (SPORTMONKS_BASE cfg) @ ''/fixtures/finished'']"
    by (simp add: get_matches_requests_sportmonks [of cfg key] request_urls lstrip_slash_def)
  have r: "API_PROVIDER cfg \<noteq> ''sportmonks''
        \<and> RAPIDAPI_KEY cfg = Some rkey \<and> rkey \<noteq> [] \<and> RAPIDAPI_HOST cfg = Some host \<and> host \<noteq> [] \<longrightarrow>
        map url (snd (get_matches cfg w ''live'')) =
          [''https://cricbuzz-cricket.p.rapidapi.com/matches/v1/live'']
        \<and> map url (snd (get_matches cfg w ''upcoming'')) =
          [''https://cricbuzz-cricket.p.rapidapi.com/matches/v1/upcoming'']
        \<and> map url (snd (get_matches cfg w ''completed'')) =
          [''https://cricbuzz-cricket.p.rapidapi.com/matches/v1/recent'']"
    by (simp add: get_matches_requests_rapidapi [of cfg rkey host] request_urls lstrip_slash_def
          rstrip_slash_def rapidapi_base_def)
  from s r show ?thesis by simp
qed

theorem resource_paths_witness:
  "API_PROVIDER cfg_sportmonks = ''sportmonks'' \<and> CRICKET_API_KEY cfg_sportmonks = Some ''k1''
   \<and> map url (snd (get_matches cfg_sportmonks (world_answering (Inl ''timed out'')) ''upcoming'')) =
       [''https://cricket.sportmonks.com/api/v2.0/fixtures'']
   \<and> API_PROVIDER cfg_rapidapi \<noteq> ''sportmonks''
   \<and> map url (snd (get_matches cfg_rapidapi (world_answering (Inl ''timed out'')) ''completed'')) =
       [''https://cricbuzz-cricket.p.rapidapi.com/matches/v1/recent'']"
  using resource_paths [of cfg_sportmonks "''k1''" "world_answering (Inl ''timed out'')" "''k2''" "''h''"]
        resource_paths [of cfg_rapidapi "''k1''" "world_answering (Inl ''timed out'')" "''k2''"
                           "''cricbuzz-cricket.p.rapidapi.com''"]
  by (simp add: cfg_sportmonks_def cfg_rapidapi_def rstrip_slash_def)

section \<open>Rankings when a request fails\<close>

lemma players_loop_step:
  assumes "http_get w (rankings_request format cat) = Inr pr"
    and "resp_status pr = 200 \<longrightarrow> resp_json pr = Inr j"
  shows "players_loop w format (cat # cats) players =
           (case players_loop w format cats
                   (if resp_status pr = 200 then AList.update cat j players else players) of
              (res, tr) \<Rightarrow> (res, rankings_request format cat # tr))"
  using assms by (simp add: requests_get_def r_json_def Let_def)

text \<open>
  C3. The docstring of get_rankings promises the rankings if available, else a fallback,
  and the spec an empty list for every sub-request that does not succeed. The code does
  so for a response whose status is not 200 only: when the request for the teams raises
  (a timeout, say), or is answered 200 with a body that is not JSON, get_rankings
  raises HTTPException 500 after that one request and returns no category at all.
\<close>

theorem rankings_fails_wholesale:
  "get_rankings (world_answering (Inl ''timed out'')) ''odi'' =
     (Inl (HTTPException 500 ''timed out''), [rankings_request ''odi'' ''teams''])
   \<and> get_rankings
        (world_answering
           (Inr \<lparr>resp_status = 200, resp_text = ''<html>'', resp_json = Inl ''Expecting value''\<rparr>))
        ''odi'' =
     (Inl (HTTPException 500 ''Expecting value''), [rankings_request ''odi'' ''teams''])"
  by (simp add: get_rankings_def get_rankings_try_def world_answering_def requests_get_def
        r_json_def Let_def)

text \<open>
  Where the fallback does work: for every format, when each of the four requests (teams,
  batting, bowling, allrounder) is answered with a response, whatever its status code,
  and every response with status 200 has a JSON body, get_rankings returns normally the
  dict with the format, the teams and exactly the three player categories batting,
  bowling and allrounder in that order, where a slot holds the decoded body when its
  response had status 200 and the empty list otherwise; this after exactly the four
  requests.
\<close>

lemma rankings_partial_results:
  assumes "http_get w (rankings_request format ''teams'') = Inr rt"
    and "http_get w (rankings_request format ''batting'') = Inr rb"
    and "http_get w (rankings_request format ''bowling'') = Inr ro"
    and "http_get w (rankings_request format ''allrounder'') = Inr ra"
    and "resp_status rt = 200 \<longrightarrow> resp_json rt = Inr jt"
    and "resp_status rb = 200 \<longrightarrow> resp_json rb = Inr jb"
    and "resp_status ro = 200 \<longrightarrow> resp_json ro = Inr jo"
    and "resp_status ra = 200 \<longrightarrow> resp_json ra = Inr ja"
  shows "get_rankings w format =
           (Inr (JObj
              [(''format'', JStr format),
               (''teams'', if resp_status rt = 200 then jt else JList []),
               (''players'', JObj
                  [(''batting'', if resp_status rb = 200 then jb else JList []),
                   (''bowling'', if resp_status ro = 200 then jo else JList []),
                   (''allrounder'', if resp_status ra = 200 then ja else JList [])])]),
            [rankings_request format ''teams'',
             rankings_request format ''batting'',
             rankings_request format ''bowling'',
             rankings_request format ''allrounder''])"
proof -
  let ?p0 = "[(''batting'', JList []), (''bowling'', JList []), (''allrounder'', JList [])]"
  have loop: "players_loop w format [''batting'', ''bowling'', ''allrounder''] ?p0 =
          (Inr [(''batting'', if resp_status rb = 200 then jb else JList []),
                (''bowling'', if resp_status ro = 200 then jo else JList []),
                (''allrounder'', if resp_status ra = 200 then ja else JList [])],
           [rankings_request format ''batting'',
            rankings_request format ''bowling'',
            rankings_request format ''allrounder''])"
    by (simp del: players_loop.simps(2)
          add: players_loop_step [OF assms(2) assms(6)] players_loop_step [OF assms(3) assms(7)]
          players_loop_step [OF assms(4) assms(8)])
  have teams: "(if resp_status rt = 200 then r_json rt else Inr (JList [])) =
          Inr (if resp_status rt = 200 then jt else JList [])"
    using assms(5) by (simp add: r_json_def)
  show ?thesis
    using assms(1) loop teams
    by (simp add: get_rankings_def get_rankings_try_def requests_get_def Let_def)
qed

lemma rankings_partial_results_on_bowling_only:
  "get_rankings world_bowling_only ''odi'' =
     (Inr (JObj
        [(''format'', JStr ''odi''),
         (''teams'', JList []),
         (''players'', JObj
            [(''batting'', JList []),
             (''bowling'', JList [JStr ''Bumrah'']),
             (''allrounder'', JList [])])]),
      [rankings_request ''odi'' ''teams'',
       rankings_request ''odi'' ''batting'',
       rankings_request ''odi'' ''bowling'',
       rankings_request ''odi'' ''allrounder''])"
  using rankings_partial_results
          [of world_bowling_only "''odi''"
              "error_response 503 ''Service Unavailable''"
              "error_response 503 ''Service Unavailable''"
              "ok_response (JList [JStr ''Bumrah''])"
              "error_response 503 ''Service Unavailable''"
              JNull JNull "JList [JStr ''Bumrah'']" JNull]
  by (simp add: world_bowling_only_def rankings_request_def ok_response_def error_response_def)

section \<open>News: twenty per feed, fifty overall\<close>

lemma entries_loop_append: "entries_loop fd es items = items @ entries_loop fd es []"
proof (induction es arbitrary: items)
  case Nil
  show ?case by simp
next
  case (Cons e es)
  show ?case
  proof (cases "news_item fd e")
    case (Inl err)
    then show ?thesis by simp
  next
    case (Inr item)
    have "entries_loop fd (e # es) items = (items @ [item]) @ entries_loop fd es []"
      using Inr Cons.IH [of "items @ [item]"] by simp
    also have "\<dots> = items @ entries_loop fd (e # es) []"
      using Inr Cons.IH [of "[item]"] by simp
    finally show ?thesis .
  qed
qed

lemma sources_loop_concat:
  "sources_loop w srcs items = items @ concat (map (feed_items w) srcs)"
proof (induction srcs arbitrary: items)
  case Nil
  show ?case by simp
next
  case (Cons src srcs)
  show ?case
  proof (cases "feed_parse w src")
    case (Inl msg)
    then show ?thesis by (simp add: Cons.IH feed_items_def)
  next
    case (Inr parsed)
    then show ?thesis
      using entries_loop_append [of "feed parsed" "take 20 (entries parsed)" items]
      by (simp add: Cons.IH feed_items_def)
  qed
qed

lemma entries_loop_prefix:
  "\<exists>n\<le>length es. for_each (news_item fd) (take n es) = Inr (entries_loop fd es [])"
proof (induction es)
  case Nil
  show ?case by simp
next
  case (Cons e es)
  show ?case
  proof (cases "news_item fd e")
    case (Inl err)
    then have "for_each (news_item fd) (take 0 (e # es)) = Inr (entries_loop fd (e # es) [])"
      by simp
    then show ?thesis by blast
  next
    case (Inr item)
    from Cons.IH obtain n where n: "n \<le> length es"
      and f: "for_each (news_item fd) (take n es) = Inr (entries_loop fd es [])"
      by blast
    have "entries_loop fd (e # es) [] = item # entries_loop fd es []"
      using Inr entries_loop_append [of fd es "[item]"] by simp
    then have "for_each (news_item fd) (take (Suc n) (e # es)) = Inr (entries_loop fd (e # es) [])"
      using Inr f by simp
    moreover have "Suc n \<le> length (e # es)"
      using n by simp
    ultimately show ?thesis by blast
  qed
qed

lemma entries_loop_all:
  "for_each (news_item fd) es = Inr its \<Longrightarrow> entries_loop fd es [] = its"
proof (induction es arbitrary: its)
  case Nil
  then show ?case by simp
next
  case (Cons e es)
  from Cons.prems obtain item rest where i: "news_item fd e = Inr item"
    and r: "for_each (news_item fd) es = Inr rest" and its: "its = item # rest"
    by (auto split: sum.splits)
  have "entries_loop fd (e # es) [] = item # entries_loop fd es []"
    using i entries_loop_append [of fd es "[item]"] by simp
  then show ?case using Cons.IH [OF r] its by simp
qed

lemma for_each_length: "for_each f xs = Inr ys \<Longrightarrow> length ys = length xs"
  by (induction xs arbitrary: ys) (auto split: sum.splits)

lemma length_entries_loop: "length (entries_loop fd es []) \<le> length es"
proof -
  obtain n where n: "n \<le> length es"
    and f: "for_each (news_item fd) (take n es) = Inr (entries_loop fd es [])"
    using entries_loop_prefix by blast
  from for_each_length [OF f] n show ?thesis by simp
qed

lemma length_feed_items: "length (feed_items w src) \<le> 20"
proof (cases "feed_parse w src")
  case (Inl msg)
  then show ?thesis by (simp add: feed_items_def)
next
  case (Inr parsed)
  have "length (entries_loop (feed parsed) (take 20 (entries parsed)) []) \<le>
          length (take 20 (entries parsed))"
    by (rule length_entries_loop)
  then show ?thesis using Inr by (simp add: feed_items_def)
qed

lemma feed_items_prefix:
  assumes "feed_parse w src = Inr parsed"
  shows "\<exists>n\<le>20. for_each (news_item (feed parsed)) (take n (entries parsed)) = Inr (feed_items w src)"
proof -
  obtain n where n: "n \<le> length (take 20 (entries parsed))"
    and f: "for_each (news_item (feed parsed)) (take n (take 20 (entries parsed))) =
              Inr (entries_loop (feed parsed) (take 20 (entries parsed)) [])"
    using entries_loop_prefix by blast
  from n have "n \<le> 20" by simp
  moreover from this have "take n (take 20 (entries parsed)) = take n (entries parsed)"
    by (simp add: min_def)
  ultimately show ?thesis using f assms by (auto simp add: feed_items_def)
qed

text \<open>
  C7. For every list of feeds and whatever each feed holds, get_news returns as items
  the first 50 of the feeds' contributions concatenated in the order of the feeds, so
  at most 50 items. A feed contributes at most 20 items; a feed whose parse raises
  contributes none and raises nothing; a feed that parses contributes the items of its
  first entries in the order of the feed, namely of all of its first 20 entries when
  each of them normalizes.
\<close>

theorem news_twenty_per_feed_fifty_overall:
  "get_news_from w srcs = JObj [(''items'', JList (take 50 (concat (map (feed_items w) srcs))))]
   \<and> get_news w = get_news_from w NEWS_SOURCES
   \<and> length (take 50 (concat (map (feed_items w) srcs))) \<le> 50
   \<and> (\<forall>src. length (feed_items w src) \<le> 20)
   \<and> (\<forall>src msg. feed_parse w src = Inl msg \<longrightarrow> feed_items w src = [])
   \<and> (\<forall>src parsed. feed_parse w src = Inr parsed \<longrightarrow>
        (\<exists>n\<le>20. for_each (news_item (feed parsed)) (take n (entries parsed)) =
                   Inr (feed_items w src)))
   \<and> (\<forall>src parsed its. feed_parse w src = Inr parsed
        \<and> for_each (news_item (feed parsed)) (take 20 (entries parsed)) = Inr its \<longrightarrow>
        feed_items w src = its)"
proof -
  have a: "get_news_from w srcs = JObj [(''items'', JList (take 50 (concat (map (feed_items w) srcs))))]"
    by (simp add: get_news_from_def sources_loop_concat)
  have b: "get_news w = get_news_from w NEWS_SOURCES"
    by (simp add: get_news_def)
  have c: "length (take 50 (concat (map (feed_items w) srcs))) \<le> 50"
    by simp
  have d: "\<forall>src. length (feed_items w src) \<le> 20"
    by (simp add: length_feed_items)
  have e: "\<forall>src msg. feed_parse w src = Inl msg \<longrightarrow> feed_items w src = []"
    by (simp add: feed_items_def)
  have f: "\<forall>src parsed. feed_parse w src = Inr parsed \<longrightarrow>
        (\<exists>n\<le>20. for_each (news_item (feed parsed)) (take n (entries parsed)) =
                   Inr (feed_items w src))"
    using feed_items_prefix by blast
  have g: "\<forall>src parsed its. feed_parse w src = Inr parsed
        \<and> for_each (news_item (feed parsed)) (take 20 (entries parsed)) = Inr its \<longrightarrow>
        feed_items w src = its"
    by (auto simp add: feed_items_def entries_loop_all)
  from a b c d e f g show ?thesis by blast
qed

lemma for_each_replicate:
  "f x = Inr y \<Longrightarrow> for_each f (replicate n x) = Inr (replicate n y)"
  by (induction n) simp_all

lemma news_item_sample:
  "news_item (JObj [(''title'', JStr ''ESPN'')]) sample_entry = Inr sample_item"
  by (simp add: news_item_def sample_entry_def sample_item_def py_or_def)

theorem news_twenty_per_feed_fifty_overall_witness:
  "feed_parse world_feeds ''bad'' = Inl ''not well-formed''
   \<and> feed_items world_feeds ''bad'' = []
   \<and> feed_items world_feeds ''a'' = replicate 20 sample_item
   \<and> get_news_from world_feeds [''a'', ''bad'', ''b'', ''c''] =
       JObj [(''items'', JList (replicate 50 sample_item))]"
proof -
  let ?srcs = "[''a'', ''bad'', ''b'', ''c'']"
  note inst = news_twenty_per_feed_fifty_overall [of world_feeds ?srcs]
  have bad: "feed_parse world_feeds ''bad'' = Inl ''not well-formed''"
    by (simp add: world_feeds_def)
  have good: "feed_parse world_feeds src =
          Inr \<lparr>entries = replicate 25 sample_entry, feed = JObj [(''title'', JStr ''ESPN'')]\<rparr>"
    if "src \<noteq> ''bad''" for src
    using that by (simp add: world_feeds_def)
  have each: "for_each (news_item (JObj [(''title'', JStr ''ESPN'')])) (replicate 20 sample_entry) =
          Inr (replicate 20 sample_item)"
    using news_item_sample
    by (rule for_each_replicate
          [of "news_item (JObj [(''title'', JStr ''ESPN'')])" sample_entry sample_item 20])
  have none: "feed_items world_feeds ''bad'' = []"
    using inst bad by blast
  have twenty: "feed_items world_feeds src = replicate 20 sample_item" if "src \<noteq> ''bad''" for src
  proof -
    have "feed_parse world_feeds src =
            Inr \<lparr>entries = replicate 25 sample_entry, feed = JObj [(''title'', JStr ''ESPN'')]\<rparr>
          \<and> for_each (news_item (feed \<lparr>entries = replicate 25 sample_entry,
                                        feed = JObj [(''title'', JStr ''ESPN'')]\<rparr>))
                (take 20 (entries \<lparr>entries = replicate 25 sample_entry,
                                   feed = JObj [(''title'', JStr ''ESPN'')]\<rparr>)) =
              Inr (replicate 20 sample_item)"
      using good [OF that] each by simp
    with inst show ?thesis by blast
  qed
  have "get_news_from world_feeds ?srcs =
          JObj [(''items'', JList (take 50 (concat (map (feed_items world_feeds) ?srcs))))]"
    using inst by blast
  then have "get_news_from world_feeds ?srcs = JObj [(''items'', JList (replicate 50 sample_item))]"
    using none twenty [of "''a''"] twenty [of "''b''"] twenty [of "''c''"]
    by (simp add: replicate_add [symmetric])
  with bad none twenty [of "''a''"] show ?thesis by simp
qed

section \<open>The match lists on a decoded payload\<close>

lemma get_matches_sportmonks_payload:
  assumes "API_PROVIDER cfg = ''sportmonks''" "CRICKET_API_KEY cfg = Some key" "key \<noteq> []"
    and "subscript sportmonks_endpoints type = Inr endpoint"
    and "http_get w (sportmonks_request cfg key endpoint matches_params) = Inr r"
    and "resp_status r = 200" "resp_json r = Inr data"
  shows "get_matches cfg w type =
           (case sportmonks_matches w type data of
              Inl e \<Rightarrow> Inl (HTTPException 500 (take 200 (exc_str e)))
            | Inr v \<Rightarrow> Inr v,
            [sportmonks_request cfg key endpoint matches_params])"
  using assms
  by (simp add: get_matches_sportmonks sportmonks_get_response r_json_def)

lemma get_matches_rapidapi_payload:
  assumes "API_PROVIDER cfg \<noteq> ''sportmonks''"
    and "RAPIDAPI_KEY cfg = Some key" "key \<noteq> []" "RAPIDAPI_HOST cfg = Some host" "host \<noteq> []"
    and "subscript rapidapi_paths type = Inr path"
    and "http_get w (rapidapi_request key host path None rapidapi_base) = Inr r"
    and "resp_status r = 200" "resp_json r = Inr data"
  shows "get_matches cfg w type =
           (case rapidapi_matches w type data of
              Inl e \<Rightarrow> Inl (HTTPException 500 (take 200 (exc_str e)))
            | Inr v \<Rightarrow> Inr v,
            [rapidapi_request key host path None rapidapi_base])"
  using assms
  by (simp add: get_matches_rapidapi rapidapi_get_response r_json_def)

lemma rapid_card_str: "rapid_card w type (JStr s) = Inl (no_attribute (JStr s) ''get'')"
  by (simp add: rapid_card_def)

text \<open>
  A payload dict without the key matches is itself what get_matches iterates: the loop
  body runs on the payload's keys, so the empty payload gives an empty matches list
  and any other such payload ends in the AttributeError of calling get on a str. A
  payload whose matches is the empty list gives the dict of the type and an empty
  matches list.
\<close>

lemma dict_payload_fallback:
  "(map_of kvs ''matches'' = None \<longrightarrow>
      rapidapi_matches w type (JObj kvs) =
        and_then (py_iter (JObj kvs)) (\<lambda>ms.
        and_then (for_each (rapid_card w type) ms) (\<lambda>cards.
        Inr (JObj [(''type'', JStr type), (''matches'', JList cards)]))))
   \<and> rapidapi_matches w type (JObj []) = Inr (JObj [(''type'', JStr type), (''matches'', JList [])])
   \<and> (map_of ((k, v) # rest) ''matches'' = None \<longrightarrow>
      rapidapi_matches w type (JObj ((k, v) # rest)) = Inl (no_attribute (JStr k) ''get''))
   \<and> (map_of kvs ''matches'' = Some (JList []) \<longrightarrow>
      rapidapi_matches w type (JObj kvs) = Inr (JObj [(''type'', JStr type), (''matches'', JList [])]))
   \<and> (API_PROVIDER cfg \<noteq> ''sportmonks''
      \<and> RAPIDAPI_KEY cfg = Some key \<and> key \<noteq> [] \<and> RAPIDAPI_HOST cfg = Some host \<and> host \<noteq> []
      \<and> subscript rapidapi_paths type = Inr path
      \<and> http_get w (rapidapi_request key host path None rapidapi_base) = Inr r
      \<and> resp_status r = 200 \<and> resp_json r = Inr (JObj kvs)
      \<and> map_of kvs ''matches'' = Some (JList []) \<longrightarrow>
      get_matches cfg w type =
        (Inr (JObj [(''type'', JStr type), (''matches'', JList [])]),
         [rapidapi_request key host path None rapidapi_base]))"
proof -
  have a: "map_of kvs ''matches'' = None \<longrightarrow>
      rapidapi_matches w type (JObj kvs) =
        and_then (py_iter (JObj kvs)) (\<lambda>ms.
        and_then (for_each (rapid_card w type) ms) (\<lambda>cards.
        Inr (JObj [(''type'', JStr type), (''matches'', JList cards)])))"
    by (simp add: rapidapi_matches_def)
  have b: "rapidapi_matches w type (JObj []) = Inr (JObj [(''type'', JStr type), (''matches'', JList [])])"
    by (simp add: rapidapi_matches_def)
  have c: "map_of ((k, v) # rest) ''matches'' = None \<longrightarrow>
      rapidapi_matches w type (JObj ((k, v) # rest)) = Inl (no_attribute (JStr k) ''get'')"
    by (simp add: rapidapi_matches_def rapid_card_str no_attribute_def)
  have d: "map_of kvs ''matches'' = Some (JList []) \<longrightarrow>
      rapidapi_matches w type (JObj kvs) = Inr (JObj [(''type'', JStr type), (''matches'', JList [])])"
    by (simp add: rapidapi_matches_def)
  have e: "API_PROVIDER cfg \<noteq> ''sportmonks''
      \<and> RAPIDAPI_KEY cfg = Some key \<and> key \<noteq> [] \<and> RAPIDAPI_HOST cfg = Some host \<and> host \<noteq> []
      \<and> subscript rapidapi_paths type = Inr path
      \<and> http_get w (rapidapi_request key host path None rapidapi_base) = Inr r
      \<and> resp_status r = 200 \<and> resp_json r = Inr (JObj kvs)
      \<and> map_of kvs ''matches'' = Some (JList []) \<longrightarrow>
      get_matches cfg w type =
        (Inr (JObj [(''type'', JStr type), (''matches'', JList [])]),
         [rapidapi_request key host path None rapidapi_base])"
    using d by (simp add: get_matches_rapidapi_payload)
  from a b c d e show ?thesis by blast
qed

text \<open>
  C10. The fallback \<^verbatim>\<open>data.get("matches", data)\<close> is written for a payload that is
  itself the collection of match records, but such a payload is a list, and get is
  called on it before the default is ever used: get_matches raises the AttributeError
  of a list without get, reported as a 500, although the same records under the key
  matches give their cards.
\<close>

theorem list_payload_fails:
  "get_matches cfg_rapidapi (world_answering (Inr (ok_response (JList [alternate_record])))) ''live'' =
     (Inl (HTTPException 500
        (squote @ ''list'' @ squote @ '' object has no attribute '' @ squote @ ''get'' @ squote)),
      [rapidapi_request ''k2'' ''cricbuzz-cricket.p.rapidapi.com'' ''matches/v1/live'' None
         rapidapi_base])
   \<and> get_matches cfg_rapidapi
        (world_answering (Inr (ok_response (JObj [(''matches'', JList [alternate_record])]))))
        ''live'' =
     (Inr (JObj [(''type'', JStr ''live''), (''matches'', JList [alternate_card])]),
      [rapidapi_request ''k2'' ''cricbuzz-cricket.p.rapidapi.com'' ''matches/v1/live'' None
         rapidapi_base])"
  by code_simp

section \<open>Normalizing one match record\<close>

lemma and_then_eq_Inr: "and_then r f = Inr y \<longleftrightarrow> (\<exists>x. r = Inr x \<and> f x = Inr y)"
  by (cases r) simp_all

lemma py_upper_eq_Inr: "py_upper up v = Inr x \<longleftrightarrow> (\<exists>s. v = JStr s \<and> x = JStr (up s))"
  by (cases v) auto

lemma to_card_dict: "to_card w type m = Inr c \<Longrightarrow> \<exists>kvs. m = JObj kvs"
  by (cases m) (simp_all add: to_card_def)

lemma rapid_card_dict: "rapid_card w type m = Inr c \<Longrightarrow> \<exists>kvs. m = JObj kvs"
  by (cases m) (simp_all add: rapid_card_def)

lemma to_card_status:
  assumes "to_card w type (JObj kvs) = Inr c"
  shows "(\<exists>x. lookup kvs ''status'' JNull = JStr x \<and> x \<noteq> []
             \<and> field c ''status'' = Some (JStr (str_upper w x)))
         \<or> (\<not> truthy (lookup kvs ''status'' JNull)
             \<and> field c ''status'' = Some (JStr (str_upper w type)))"
  using assms
  by (auto simp add: to_card_def and_then_eq_Inr py_upper_eq_Inr Let_def field_def
        split: if_splits)

lemma rapid_card_status:
  assumes "rapid_card w type (JObj kvs) = Inr c"
  shows "(\<exists>x. lookup kvs ''matchState'' JNull = JStr x \<and> x \<noteq> []
             \<and> field c ''status'' = Some (JStr (str_upper w x)))
         \<or> (\<not> truthy (lookup kvs ''matchState'' JNull)
             \<and> (\<exists>x. lookup kvs ''status'' (JStr type) = JStr x
                    \<and> field c ''status'' = Some (JStr (str_upper w x))))"
  using assms
  by (auto simp add: rapid_card_def and_then_eq_Inr py_upper_eq_Inr Let_def field_def
        split: if_splits)


lemma sub_object_or_empty:
  assumes "\<forall>x. map_of kvs k = Some x \<longrightarrow> \<not> truthy x \<or> (\<exists>obj. x = JObj obj)"
  shows "\<exists>obj. py_or (lookup kvs k JNull) (JObj []) = JObj obj"
proof (cases "map_of kvs k")
  case None
  then show ?thesis by (simp add: py_or_def)
next
  case (Some x)
  with assms have "\<not> truthy x \<or> (\<exists>obj. x = JObj obj)" by simp
  with Some show ?thesis by (auto simp add: py_or_def)
qed

lemma to_card_absent:
  assumes "to_card w type (JObj kvs) = Inr c"
  shows "map_of kvs ''localteam'' = None \<Longrightarrow>
           field c ''localteam'' = Some (JObj [(''id'', JNull), (''name'', JNull), (''code'', JNull)])"
    and "map_of kvs ''visitorteam'' = None \<Longrightarrow>
           field c ''visitorteam'' = Some (JObj [(''id'', JNull), (''name'', JNull), (''code'', JNull)])"
    and "map_of kvs ''venue'' = None \<Longrightarrow>
           field c ''venue'' = Some (JObj [(''name'', JNull), (''city'', JNull)])"
  using assms
  by (auto simp add: to_card_def and_then_eq_Inr Let_def field_def py_or_def)

lemma rapid_card_absent:
  assumes "rapid_card w type (JObj kvs) = Inr c"
  shows "map_of kvs ''team1'' = None \<Longrightarrow>
           field c ''localteam'' = Some (JObj [(''name'', JNull), (''code'', JNull)])"
    and "map_of kvs ''team2'' = None \<Longrightarrow>
           field c ''visitorteam'' = Some (JObj [(''name'', JNull), (''code'', JNull)])"
    and "map_of kvs ''venueInfo'' = None \<Longrightarrow>
           field c ''venue'' = Some (JObj [(''name'', JNull), (''city'', JNull)])"
  using assms
  by (auto simp add: rapid_card_def and_then_eq_Inr Let_def field_def py_or_def)

lemma to_card_succeeds:
  assumes lt: "\<forall>x. map_of kvs ''localteam'' = Some x \<longrightarrow> \<not> truthy x \<or> (\<exists>obj. x = JObj obj)"
    and vt: "\<forall>x. map_of kvs ''visitorteam'' = Some x \<longrightarrow> \<not> truthy x \<or> (\<exists>obj. x = JObj obj)"
    and ve: "\<forall>x. map_of kvs ''venue'' = Some x \<longrightarrow> \<not> truthy x \<or> (\<exists>obj. x = JObj obj)"
    and st: "\<forall>x. map_of kvs ''status'' = Some x \<longrightarrow> \<not> truthy x \<or> (\<exists>s. x = JStr s)"
  shows "\<exists>c. to_card w type (JObj kvs) = Inr c"
proof -
  obtain o1 where o1: "py_or (lookup kvs ''localteam'' JNull) (JObj []) = JObj o1"
    using sub_object_or_empty [OF lt] by blast
  obtain o2 where o2: "py_or (lookup kvs ''visitorteam'' JNull) (JObj []) = JObj o2"
    using sub_object_or_empty [OF vt] by blast
  obtain o3 where o3: "py_or (lookup kvs ''venue'' JNull) (JObj []) = JObj o3"
    using sub_object_or_empty [OF ve] by blast
  have s: "truthy (lookup kvs ''status'' JNull) \<longrightarrow> (\<exists>x. lookup kvs ''status'' JNull = JStr x)"
  proof (cases "map_of kvs ''status''")
    case None
    then show ?thesis by simp
  next
    case (Some x)
    with st have "\<not> truthy x \<or> (\<exists>s. x = JStr s)" by simp
    with Some show ?thesis by auto
  qed
  show ?thesis
    using s by (auto simp add: to_card_def Let_def o1 o2 o3)
qed

lemma rapid_card_succeeds:
  assumes t1: "\<forall>x. map_of kvs ''team1'' = Some x \<longrightarrow> \<not> truthy x \<or> (\<exists>obj. x = JObj obj)"
    and t2: "\<forall>x. map_of kvs ''team2'' = Some x \<longrightarrow> \<not> truthy x \<or> (\<exists>obj. x = JObj obj)"
    and vi: "\<forall>x. map_of kvs ''venueInfo'' = Some x \<longrightarrow> (\<exists>obj. x = JObj obj)"
    and ms: "\<forall>x. map_of kvs ''matchState'' = Some x \<longrightarrow> \<not> truthy x \<or> (\<exists>s. x = JStr s)"
    and st: "\<forall>x. map_of kvs ''status'' = Some x \<longrightarrow> (\<exists>s. x = JStr s)"
  shows "\<exists>c. rapid_card w type (JObj kvs) = Inr c"
proof -
  obtain o1 where o1: "py_or (lookup kvs ''team1'' JNull) (JObj []) = JObj o1"
    using sub_object_or_empty [OF t1] by blast
  obtain o2 where o2: "py_or (lookup kvs ''team2'' JNull) (JObj []) = JObj o2"
    using sub_object_or_empty [OF t2] by blast
  have "\<exists>obj. lookup kvs ''venueInfo'' (JObj []) = JObj obj"
    using vi by (cases "map_of kvs ''venueInfo''") auto
  then obtain o3 where o3: "lookup kvs ''venueInfo'' (JObj []) = JObj o3"
    by blast
  have fallback: "\<exists>s. lookup kvs ''status'' (JStr type) = JStr s"
    using st by (cases "map_of kvs ''status''") auto
  have s: "truthy (lookup kvs ''matchState'' JNull) \<longrightarrow>
           (\<exists>x. lookup kvs ''matchState'' JNull = JStr x)"
  proof (cases "map_of kvs ''matchState''")
    case None
    then show ?thesis by simp
  next
    case (Some x)
    with ms have "\<not> truthy x \<or> (\<exists>s. x = JStr s)" by simp
    with Some show ?thesis by auto
  qed
  show ?thesis
    using s fallback by (auto simp add: rapid_card_def Let_def o1 o2 o3)
qed

section \<open>From the records to the returned list\<close>

lemma ascii_upper_types:
  "ascii_upper ''live'' = ''LIVE''" "ascii_upper ''upcoming'' = ''UPCOMING''"
  "ascii_upper ''completed'' = ''COMPLETED''"
  by code_simp+

lemma ascii_types: "ascii ''live''" "ascii ''upcoming''" "ascii ''completed''"
  by code_simp+

lemma lift_eq_Inr: "lift r = Inr v \<longleftrightarrow> r = Inr v"
  by (cases r) simp_all

lemma for_each_all2: "for_each f xs = Inr ys \<Longrightarrow> list_all2 (\<lambda>x y. f x = Inr y) xs ys"
  by (induction xs arbitrary: ys) (auto split: sum.splits)

lemma get_matches_returns:
  assumes "get_matches cfg w type = (Inr v, tr)"
  shows "(API_PROVIDER cfg = ''sportmonks'' \<and> (\<exists>data. sportmonks_matches w type data = Inr v))
         \<or> (API_PROVIDER cfg \<noteq> ''sportmonks'' \<and> (\<exists>data. rapidapi_matches w type data = Inr v))"
  using assms
  by (auto simp add: get_matches_def get_matches_try_def lift_eq_Inr
        split: if_splits sum.splits prod.splits)

lemma sportmonks_matches_cards:
  assumes "sportmonks_matches w type data = Inr v"
  shows "\<exists>raw ms cards. dict_get data ''data'' (JList []) = Inr raw \<and> py_iter raw = Inr ms
           \<and> list_all2 (\<lambda>m c. to_card w type m = Inr c) ms cards
           \<and> v = JObj [(''type'', JStr type), (''matches'', JList cards)]"
  using assms
  by (auto simp add: sportmonks_matches_def and_then_eq_Inr dest: for_each_all2)

lemma rapidapi_matches_cards:
  assumes "rapidapi_matches w type data = Inr v"
  shows "\<exists>items ms cards. dict_get data ''matches'' data = Inr items \<and> py_iter items = Inr ms
           \<and> list_all2 (\<lambda>m c. rapid_card w type m = Inr c) ms cards
           \<and> v = JObj [(''type'', JStr type), (''matches'', JList cards)]"
  using assms
  by (auto simp add: rapidapi_matches_def and_then_eq_Inr dest: for_each_all2)

lemma to_card_has_status: "to_card w type m = Inr c \<Longrightarrow> \<exists>s. field c ''status'' = Some (JStr s)"
  using to_card_dict [of w type m c] to_card_status by blast

lemma rapid_card_has_status: "rapid_card w type m = Inr c \<Longrightarrow> \<exists>s. field c ''status'' = Some (JStr s)"
  using rapid_card_dict [of w type m c] rapid_card_status by blast

lemma all2_right: "list_all2 P xs ys \<Longrightarrow> y \<in> set ys \<Longrightarrow> \<exists>x. P x y"
  by (auto simp add: list_all2_conv_all_nth in_set_conv_nth)

lemma get_matches_status_present:
  assumes "get_matches cfg w type = (Inr v, tr)"
  shows "\<exists>cards. v = JObj [(''type'', JStr type), (''matches'', JList cards)]
           \<and> (\<forall>c\<in>set cards. \<exists>s. field c ''status'' = Some (JStr s))"
proof -
  from get_matches_returns [OF assms]
  consider (primary) data where "sportmonks_matches w type data = Inr v"
    | (alternate) data where "rapidapi_matches w type data = Inr v"
    by blast
  then show ?thesis
  proof cases
    case primary
    from sportmonks_matches_cards [OF primary] obtain ms cards
      where a: "list_all2 (\<lambda>m c. to_card w type m = Inr c) ms cards"
        and v: "v = JObj [(''type'', JStr type), (''matches'', JList cards)]"
      by blast
    have "\<exists>s. field c ''status'' = Some (JStr s)" if "c \<in> set cards" for c
      using all2_right [OF a that] to_card_has_status by blast
    with v show ?thesis by blast
  next
    case alternate
    from rapidapi_matches_cards [OF alternate] obtain ms cards
      where a: "list_all2 (\<lambda>m c. rapid_card w type m = Inr c) ms cards"
        and v: "v = JObj [(''type'', JStr type), (''matches'', JList cards)]"
      by blast
    have "\<exists>s. field c ''status'' = Some (JStr s)" if "c \<in> set cards" for c
      using all2_right [OF a that] rapid_card_has_status by blast
    with v show ?thesis by blast
  qed
qed

lemma to_card_primary_record:
  "to_card (world_answering out) ''upcoming'' primary_record = Inr primary_card"
  by code_simp

lemma rapid_card_alternate_record:
  "rapid_card (world_answering out) ''live'' alternate_record = Inr alternate_card"
  by code_simp

lemma falsy_lookup:
  "(\<forall>x. map_of kvs k = Some x \<longrightarrow> \<not> truthy x) \<Longrightarrow> \<not> truthy (lookup kvs k JNull)"
  by (cases "map_of kvs k") simp_all

section \<open>The status of a match entry\<close>

text \<open>
  C1, as the spec states it, fails: a SportMonks record that carries the status field
  with the empty string gets the status LIVE under the type live, not the upper-cased
  value of its field, which is the empty string.
\<close>

theorem match_status_counterexample:
  "get_matches cfg_sportmonks
     (world_answering (Inr (ok_response (JObj [(''data'', JList [empty_status_record])])))) ''live'' =
     (Inr (JObj [(''type'', JStr ''live''), (''matches'', JList [empty_status_card])]),
      [sportmonks_request cfg_sportmonks ''k1'' ''livescores'' matches_params])
   \<and> field empty_status_record ''status'' = Some (JStr [])
   \<and> field empty_status_card ''status'' = Some (JStr ''LIVE'')
   \<and> ascii_upper [] \<noteq> ''LIVE''"
  by code_simp

text \<open>
  C1, amended. For both providers and every type, every entry of the matches list that
  get_matches returns has a string as status, and the entries are the cards of the
  upstream's records in order. Upper-cased means what \<^verbatim>\<open>str.upper\<close> returns.
  For SportMonks the status is the record's status upper-cased when that is a
  non-empty string, and the type upper-cased when the record's status is absent or
  falsy (null, the empty string). For RapidAPI the status is matchState upper-cased
  when that is a non-empty string; when matchState is absent or falsy it is the
  record's status upper-cased when that is a string, and the type upper-cased when the
  record has no status. With \<^verbatim>\<open>str.upper\<close> as it is on ASCII text, the types
  upper-cased are LIVE, UPCOMING and COMPLETED.
\<close>

theorem match_status:
  "(get_matches cfg w type = (Inr v, tr) \<longrightarrow>
      (\<exists>cards. v = JObj [(''type'', JStr type), (''matches'', JList cards)]
         \<and> (\<forall>c\<in>set cards. \<exists>s. field c ''status'' = Some (JStr s))))
   \<and> (sportmonks_matches w type data = Inr v \<longrightarrow>
        (\<exists>raw ms cards. dict_get data ''data'' (JList []) = Inr raw \<and> py_iter raw = Inr ms
           \<and> list_all2 (\<lambda>m c. to_card w type m = Inr c) ms cards
           \<and> v = JObj [(''type'', JStr type), (''matches'', JList cards)]))
   \<and> (rapidapi_matches w type data = Inr v \<longrightarrow>
        (\<exists>items ms cards. dict_get data ''matches'' data = Inr items \<and> py_iter items = Inr ms
           \<and> list_all2 (\<lambda>m c. rapid_card w type m = Inr c) ms cards
           \<and> v = JObj [(''type'', JStr type), (''matches'', JList cards)]))
   \<and> (to_card w type (JObj kvs) = Inr c \<longrightarrow>
        (\<forall>x. map_of kvs ''status'' = Some (JStr x) \<and> x \<noteq> [] \<longrightarrow>
             field c ''status'' = Some (JStr (str_upper w x)))
        \<and> ((\<forall>x. map_of kvs ''status'' = Some x \<longrightarrow> \<not> truthy x) \<longrightarrow>
             field c ''status'' = Some (JStr (str_upper w type))))
   \<and> (rapid_card w type (JObj kvs) = Inr c \<longrightarrow>
        (\<forall>x. map_of kvs ''matchState'' = Some (JStr x) \<and> x \<noteq> [] \<longrightarrow>
             field c ''status'' = Some (JStr (str_upper w x)))
        \<and> ((\<forall>y. map_of kvs ''matchState'' = Some y \<longrightarrow> \<not> truthy y) \<longrightarrow>
             (\<forall>x. map_of kvs ''status'' = Some (JStr x) \<longrightarrow>
                  field c ''status'' = Some (JStr (str_upper w x)))
             \<and> (map_of kvs ''status'' = None \<longrightarrow>
                  field c ''status'' = Some (JStr (str_upper w type)))))
   \<and> ((\<forall>s. ascii s \<longrightarrow> str_upper w s = ascii_upper s) \<longrightarrow>
        str_upper w ''live'' = ''LIVE'' \<and> str_upper w ''upcoming'' = ''UPCOMING''
        \<and> str_upper w ''completed'' = ''COMPLETED'')"
proof -
  have a: "get_matches cfg w type = (Inr v, tr) \<longrightarrow>
      (\<exists>cards. v = JObj [(''type'', JStr type), (''matches'', JList cards)]
         \<and> (\<forall>c\<in>set cards. \<exists>s. field c ''status'' = Some (JStr s)))"
    using get_matches_status_present by blast
  have b: "sportmonks_matches w type data = Inr v \<longrightarrow>
        (\<exists>raw ms cards. dict_get data ''data'' (JList []) = Inr raw \<and> py_iter raw = Inr ms
           \<and> list_all2 (\<lambda>m c. to_card w type m = Inr c) ms cards
           \<and> v = JObj [(''type'', JStr type), (''matches'', JList cards)])"
    using sportmonks_matches_cards by blast
  have c: "rapidapi_matches w type data = Inr v \<longrightarrow>
        (\<exists>items ms cards. dict_get data ''matches'' data = Inr items \<and> py_iter items = Inr ms
           \<and> list_all2 (\<lambda>m c. rapid_card w type m = Inr c) ms cards
           \<and> v = JObj [(''type'', JStr type), (''matches'', JList cards)])"
    using rapidapi_matches_cards by blast
  have d: "to_card w type (JObj kvs) = Inr c \<longrightarrow>
        (\<forall>x. map_of kvs ''status'' = Some (JStr x) \<and> x \<noteq> [] \<longrightarrow>
             field c ''status'' = Some (JStr (str_upper w x)))
        \<and> ((\<forall>x. map_of kvs ''status'' = Some x \<longrightarrow> \<not> truthy x) \<longrightarrow>
             field c ''status'' = Some (JStr (str_upper w type)))"
  proof (intro impI conjI allI)
    fix x
    assume t: "to_card w type (JObj kvs) = Inr c"
      and "map_of kvs ''status'' = Some (JStr x) \<and> x \<noteq> []"
    then have "lookup kvs ''status'' JNull = JStr x" "x \<noteq> []" by simp_all
    with to_card_status [OF t] show "field c ''status'' = Some (JStr (str_upper w x))" by auto
  next
    assume t: "to_card w type (JObj kvs) = Inr c"
      and "\<forall>x. map_of kvs ''status'' = Some x \<longrightarrow> \<not> truthy x"
    then have "\<not> truthy (lookup kvs ''status'' JNull)" by (simp add: falsy_lookup)
    with to_card_status [OF t] show "field c ''status'' = Some (JStr (str_upper w type))" by auto
  qed
  have e: "rapid_card w type (JObj kvs) = Inr c \<longrightarrow>
        (\<forall>x. map_of kvs ''matchState'' = Some (JStr x) \<and> x \<noteq> [] \<longrightarrow>
             field c ''status'' = Some (JStr (str_upper w x)))
        \<and> ((\<forall>y. map_of kvs ''matchState'' = Some y \<longrightarrow> \<not> truthy y) \<longrightarrow>
             (\<forall>x. map_of kvs ''status'' = Some (JStr x) \<longrightarrow>
                  field c ''status'' = Some (JStr (str_upper w x)))
             \<and> (map_of kvs ''status'' = None \<longrightarrow>
                  field c ''status'' = Some (JStr (str_upper w type))))"
  proof (intro impI conjI allI)
    fix x
    assume t: "rapid_card w type (JObj kvs) = Inr c"
      and "map_of kvs ''matchState'' = Some (JStr x) \<and> x \<noteq> []"
    then have "lookup kvs ''matchState'' JNull = JStr x" "x \<noteq> []" by simp_all
    with rapid_card_status [OF t] show "field c ''status'' = Some (JStr (str_upper w x))" by auto
  next
    fix x
    assume t: "rapid_card w type (JObj kvs) = Inr c"
      and "\<forall>y. map_of kvs ''matchState'' = Some y \<longrightarrow> \<not> truthy y"
      and "map_of kvs ''status'' = Some (JStr x)"
    then have "\<not> truthy (lookup kvs ''matchState'' JNull)"
      and "lookup kvs ''status'' (JStr type) = JStr x"
      by (simp_all add: falsy_lookup)
    with rapid_card_status [OF t] show "field c ''status'' = Some (JStr (str_upper w x))" by auto
  next
    assume t: "rapid_card w type (JObj kvs) = Inr c"
      and "\<forall>y. map_of kvs ''matchState'' = Some y \<longrightarrow> \<not> truthy y"
      and "map_of kvs ''status'' = None"
    then have "\<not> truthy (lookup kvs ''matchState'' JNull)"
      and "lookup kvs ''status'' (JStr type) = JStr type"
      by (simp_all add: falsy_lookup)
    with rapid_card_status [OF t] show "field c ''status'' = Some (JStr (str_upper w type))" by auto
  qed
  have f: "(\<forall>s. ascii s \<longrightarrow> str_upper w s = ascii_upper s) \<longrightarrow>
        str_upper w ''live'' = ''LIVE'' \<and> str_upper w ''upcoming'' = ''UPCOMING''
        \<and> str_upper w ''completed'' = ''COMPLETED''"
    using ascii_types ascii_upper_types by metis
  from a b c d e f show ?thesis by blast
qed

theorem match_status_witness:
  "to_card (world_answering (Inr (ok_response (JObj [(''data'', JList [primary_record])]))))
     ''upcoming'' primary_record = Inr primary_card
   \<and> field primary_card ''status'' = Some (JStr (ascii_upper ''Live''))
   \<and> rapid_card (world_answering (Inr (ok_response (JObj [(''data'', JList [primary_record])]))))
       ''live'' alternate_record = Inr alternate_card
   \<and> field alternate_card ''status'' = Some (JStr (ascii_upper ''In Progress''))
   \<and> get_matches cfg_sportmonks
        (world_answering (Inr (ok_response (JObj [(''data'', JList [primary_record])])))) ''upcoming'' =
       (Inr (JObj [(''type'', JStr ''upcoming''), (''matches'', JList [primary_card])]),
        [sportmonks_request cfg_sportmonks ''k1'' ''fixtures'' matches_params])
   \<and> (\<exists>s. field primary_card ''status'' = Some (JStr s))
   \<and> str_upper (world_answering (Inr (ok_response (JObj [(''data'', JList [primary_record])]))))
        ''upcoming'' = ''UPCOMING''"
proof -
  let ?w = "world_answering (Inr (ok_response (JObj [(''data'', JList [primary_record])])))"
  let ?v = "JObj [(''type'', JStr ''upcoming''), (''matches'', JList [primary_card])]"
  let ?tr = "[sportmonks_request cfg_sportmonks ''k1'' ''fixtures'' matches_params]"
  let ?pk = "[(''status'', JStr ''Live''),
              (''localteam'', JObj [(''id'', JInt 1), (''name'', JStr ''India''), (''code'', JStr ''IND'')])]"
  let ?ak = "[(''matchId'', JInt 9),
              (''matchState'', JStr ''In Progress''),
              (''status'', JStr ''Delayed''),
              (''team1'', JObj [(''teamName'', JStr ''India''), (''teamSName'', JStr ''IND'')])]"
  have u: "str_upper ?w = ascii_upper"
    by (simp add: world_answering_def)
  have p: "to_card ?w ''upcoming'' (JObj ?pk) = Inr primary_card"
    using to_card_primary_record by (simp add: primary_record_def)
  have q: "rapid_card ?w ''live'' (JObj ?ak) = Inr alternate_card"
    using rapid_card_alternate_record by (simp add: alternate_record_def)
  have g: "get_matches cfg_sportmonks ?w ''upcoming'' = (Inr ?v, ?tr)"
    by code_simp
  have ps: "field primary_card ''status'' = Some (JStr (ascii_upper ''Live''))"
    using p u match_status [of cfg_sportmonks ?w "''upcoming''" ?v ?tr JNull ?pk primary_card]
    by simp
  have qs: "field alternate_card ''status'' = Some (JStr (ascii_upper ''In Progress''))"
    using q u match_status [of cfg_sportmonks ?w "''live''" ?v ?tr JNull ?ak alternate_card]
    by simp
  have ex: "\<exists>s. field primary_card ''status'' = Some (JStr s)"
    using g match_status [of cfg_sportmonks ?w "''upcoming''" ?v ?tr JNull ?pk primary_card]
    by simp
  have up: "str_upper ?w ''upcoming'' = ''UPCOMING''"
    using u match_status [of cfg_sportmonks ?w "''upcoming''" ?v ?tr JNull ?pk primary_card]
    by simp
  from p q g ps qs ex up show ?thesis
    by (simp add: primary_record_def alternate_record_def)
qed

section \<open>Absent sub-objects\<close>

text \<open>
  What holds of a key that is absent: in the card that normalization returns, the ref of
  an absent sub-object has all its fields null, and normalization does return a card
  whenever each sub-object that is present is a dict (or falsy, where the code writes
  or-empty-dict) and the status entries that are present are strings (or falsy, where
  the code tests them).
\<close>

lemma absent_sub_objects_are_null:
  "(to_card w type (JObj kvs) = Inr c \<longrightarrow>
      (map_of kvs ''localteam'' = None \<longrightarrow>
         field c ''localteam'' = Some (JObj [(''id'', JNull), (''name'', JNull), (''code'', JNull)]))
      \<and> (map_of kvs ''visitorteam'' = None \<longrightarrow>
         field c ''visitorteam'' = Some (JObj [(''id'', JNull), (''name'', JNull), (''code'', JNull)]))
      \<and> (map_of kvs ''venue'' = None \<longrightarrow>
         field c ''venue'' = Some (JObj [(''name'', JNull), (''city'', JNull)])))
   \<and> (rapid_card w type (JObj kvs) = Inr c \<longrightarrow>
      (map_of kvs ''team1'' = None \<longrightarrow>
         field c ''localteam'' = Some (JObj [(''name'', JNull), (''code'', JNull)]))
      \<and> (map_of kvs ''team2'' = None \<longrightarrow>
         field c ''visitorteam'' = Some (JObj [(''name'', JNull), (''code'', JNull)]))
      \<and> (map_of kvs ''venueInfo'' = None \<longrightarrow>
         field c ''venue'' = Some (JObj [(''name'', JNull), (''city'', JNull)])))
   \<and> ((\<forall>x. map_of kvs ''localteam'' = Some x \<longrightarrow> \<not> truthy x \<or> (\<exists>obj. x = JObj obj))
      \<and> (\<forall>x. map_of kvs ''visitorteam'' = Some x \<longrightarrow> \<not> truthy x \<or> (\<exists>obj. x = JObj obj))
      \<and> (\<forall>x. map_of kvs ''venue'' = Some x \<longrightarrow> \<not> truthy x \<or> (\<exists>obj. x = JObj obj))
      \<and> (\<forall>x. map_of kvs ''status'' = Some x \<longrightarrow> \<not> truthy x \<or> (\<exists>s. x = JStr s)) \<longrightarrow>
      (\<exists>card. to_card w type (JObj kvs) = Inr card))
   \<and> ((\<forall>x. map_of kvs ''team1'' = Some x \<longrightarrow> \<not> truthy x \<or> (\<exists>obj. x = JObj obj))
      \<and> (\<forall>x. map_of kvs ''team2'' = Some x \<longrightarrow> \<not> truthy x \<or> (\<exists>obj. x = JObj obj))
      \<and> (\<forall>x. map_of kvs ''venueInfo'' = Some x \<longrightarrow> (\<exists>obj. x = JObj obj))
      \<and> (\<forall>x. map_of kvs ''matchState'' = Some x \<longrightarrow> \<not> truthy x \<or> (\<exists>s. x = JStr s))
      \<and> (\<forall>x. map_of kvs ''status'' = Some x \<longrightarrow> (\<exists>s. x = JStr s)) \<longrightarrow>
      (\<exists>card. rapid_card w type (JObj kvs) = Inr card))"
proof -
  have a: "to_card w type (JObj kvs) = Inr c \<longrightarrow>
      (map_of kvs ''localteam'' = None \<longrightarrow>
         field c ''localteam'' = Some (JObj [(''id'', JNull), (''name'', JNull), (''code'', JNull)]))
      \<and> (map_of kvs ''visitorteam'' = None \<longrightarrow>
         field c ''visitorteam'' = Some (JObj [(''id'', JNull), (''name'', JNull), (''code'', JNull)]))
      \<and> (map_of kvs ''venue'' = None \<longrightarrow>
         field c ''venue'' = Some (JObj [(''name'', JNull), (''city'', JNull)]))"
    using to_card_absent by blast
  have b: "rapid_card w type (JObj kvs) = Inr c \<longrightarrow>
      (map_of kvs ''team1'' = None \<longrightarrow>
         field c ''localteam'' = Some (JObj [(''name'', JNull), (''code'', JNull)]))
      \<and> (map_of kvs ''team2'' = None \<longrightarrow>
         field c ''visitorteam'' = Some (JObj [(''name'', JNull), (''code'', JNull)]))
      \<and> (map_of kvs ''venueInfo'' = None \<longrightarrow>
         field c ''venue'' = Some (JObj [(''name'', JNull), (''city'', JNull)]))"
    using rapid_card_absent by blast
  have c: "(\<forall>x. map_of kvs ''localteam'' = Some x \<longrightarrow> \<not> truthy x \<or> (\<exists>obj. x = JObj obj))
      \<and> (\<forall>x. map_of kvs ''visitorteam'' = Some x \<longrightarrow> \<not> truthy x \<or> (\<exists>obj. x = JObj obj))
      \<and> (\<forall>x. map_of kvs ''venue'' = Some x \<longrightarrow> \<not> truthy x \<or> (\<exists>obj. x = JObj obj))
      \<and> (\<forall>x. map_of kvs ''status'' = Some x \<longrightarrow> \<not> truthy x \<or> (\<exists>s. x = JStr s)) \<longrightarrow>
      (\<exists>card. to_card w type (JObj kvs) = Inr card)"
    using to_card_succeeds [of kvs w type] by blast
  have d: "(\<forall>x. map_of kvs ''team1'' = Some x \<longrightarrow> \<not> truthy x \<or> (\<exists>obj. x = JObj obj))
      \<and> (\<forall>x. map_of kvs ''team2'' = Some x \<longrightarrow> \<not> truthy x \<or> (\<exists>obj. x = JObj obj))
      \<and> (\<forall>x. map_of kvs ''venueInfo'' = Some x \<longrightarrow> (\<exists>obj. x = JObj obj))
      \<and> (\<forall>x. map_of kvs ''matchState'' = Some x \<longrightarrow> \<not> truthy x \<or> (\<exists>s. x = JStr s))
      \<and> (\<forall>x. map_of kvs ''status'' = Some x \<longrightarrow> (\<exists>s. x = JStr s)) \<longrightarrow>
      (\<exists>card. rapid_card w type (JObj kvs) = Inr card)"
    using rapid_card_succeeds [of kvs w type] by blast
  from a b c d show ?thesis by blast
qed

text \<open>
  C4. A nested sub-object may also be absent in that the upstream sends null for it. The
  SportMonks card and the two teams of the RapidAPI card guard against that with
  or-empty-dict; the venueInfo of the RapidAPI card does not: a record whose teams and
  venueInfo are all null fails with the AttributeError of None without get, reported by
  get_matches as a 500, while the same record without the venueInfo normalizes to a
  card whose refs are all null.
\<close>

theorem null_venue_info_fails:
  "rapid_card (world_answering (Inl ''timed out'')) ''live'' null_venue_record =
     Inl (AttributeError
        (squote @ ''NoneType'' @ squote @ '' object has no attribute '' @ squote @ ''get'' @ squote))
   \<and> rapid_card (world_answering (Inl ''timed out'')) ''live'' null_teams_record =
     Inr null_teams_card
   \<and> get_matches cfg_rapidapi
        (world_answering (Inr (ok_response (JObj [(''matches'', JList [null_venue_record])]))))
        ''live'' =
     (Inl (HTTPException 500
        (squote @ ''NoneType'' @ squote @ '' object has no attribute '' @ squote @ ''get'' @ squote)),
      [rapidapi_request ''k2'' ''cricbuzz-cricket.p.rapidapi.com'' ''matches/v1/live'' None
         rapidapi_base])"
  by code_simp

end
